theory Spec2Isabelle
  imports Complex_Main "HOL-Library.Sublist"
begin

section \<open>JavaScript values and the built-ins the program calls\<close>

text \<open>
  Strings are lists of 8-bit characters: the UTF-8 bytes of the JavaScript string (every
  string without a lone surrogate has them). \<open>trim\<close> removes the white space and the
  line terminators of ECMAScript, in their UTF-8 form. \<open>toUpperCase\<close> follows the case
  mappings of Unicode, which are not written out here: it is a parameter, of that name,
  of every function that calls it, and every result below holds whatever function it is.

  A JavaScript number is either finite (its exact value, a rational), \<open>NaN\<close> or one of
  the two infinities. Rounding to binary64 is not modelled, except that a literal too large
  for binary64 reads as an infinity; \<open>-0\<close> is \<open>Fin 0\<close>.

  The values are those \<open>JSON.parse\<close> and \<open>res.json()\<close> give, and \<open>undefined\<close>: no
  property of an object or an array holds a function.
\<close>

datatype jsnum = Fin rat | NaN | PosInf | NegInf

datatype jsval =
    Undefined
  | Null
  | Bool bool
  | Num jsnum
  | Str string
  | Arr "jsval list"
  | Obj "(string \<times> jsval) list"

text \<open>
  What the program can throw: an \<open>Error\<close> with its message; the \<open>Error\<close> whose message
  is the endpoint's name, \<open>expected JSON array, got:\<close> and the first 160 characters of
  \<open>JSON.stringify\<close> of the value received (the value is kept, not its text); the
  \<open>TypeError\<close> of reading a property of \<open>null\<close> or \<open>undefined\<close>, or of converting
  to a string or a number an object that cannot be converted; the rejection of \<open>fetch\<close>,
  with its text; and \<open>TranscriptNotFoundError\<close> with its three fields \<open>symbol\<close>,
  \<open>callDate\<close> and \<open>providerName\<close>.
\<close>

datatype error =
    Error string
  | ErrorNotArray string jsval
  | TypeError
  | FetchFailed string
  | TranscriptNotFoundError string string string

text \<open>\<open>typeof v === "object"\<close>.\<close>

fun isObjectType :: "jsval \<Rightarrow> bool" where
  "isObjectType Null = True"
| "isObjectType (Arr _) = True"
| "isObjectType (Obj _) = True"
| "isObjectType _ = False"

text \<open>\<open>Array.isArray(v)\<close>.\<close>

fun isArray :: "jsval \<Rightarrow> bool" where
  "isArray (Arr _) = True"
| "isArray _ = False"

text \<open>Truthiness, as \<open>!v\<close> tests it.\<close>

fun truthy :: "jsval \<Rightarrow> bool" where
  "truthy Undefined = False"
| "truthy Null = False"
| "truthy (Bool b) = b"
| "truthy (Num n) = (case n of Fin q \<Rightarrow> q \<noteq> 0 | NaN \<Rightarrow> False | _ \<Rightarrow> True)"
| "truthy (Str s) = (s \<noteq> [])"
| "truthy (Arr _) = True"
| "truthy (Obj _) = True"

text \<open>
  Property read \<open>v[key]\<close>, for the property names this program reads (none is an index,
  \<open>length\<close> or a member of a prototype). On \<open>null\<close> and \<open>undefined\<close> the read throws
  a \<open>TypeError\<close>; on every other value it gives the property's value when the value is an
  object that has the property, and \<open>undefined\<close> otherwise. An object is the list of its
  properties; the first binding of a name is the property's value.
\<close>

definition throwsOnRead :: "jsval \<Rightarrow> bool" where
  "throwsOnRead v = (v = Null \<or> v = Undefined)"

fun getProp :: "jsval \<Rightarrow> string \<Rightarrow> jsval" where
  "getProp (Obj kvs) key = (case map_of kvs key of None \<Rightarrow> Undefined | Some v \<Rightarrow> v)"
| "getProp _ key = Undefined"

text \<open>\<open>key in v\<close> for an object, for a key that no prototype has.\<close>

fun hasProp :: "jsval \<Rightarrow> string \<Rightarrow> bool" where
  "hasProp (Obj kvs) key = (map_of kvs key \<noteq> None)"
| "hasProp _ key = False"

text \<open>\<open>a ?? b\<close>.\<close>

definition nullish :: "jsval \<Rightarrow> jsval \<Rightarrow> jsval" where
  "nullish a b = (if a = Undefined \<or> a = Null then b else a)"

text \<open>\<open>Array.prototype.join\<close> on strings.\<close>

fun joinWith :: "string \<Rightarrow> string list \<Rightarrow> string" where
  "joinWith sep [] = []"
| "joinWith sep [x] = x"
| "joinWith sep (x # y # ys) = x @ sep @ joinWith sep (y # ys)"

text \<open>
  The results of conversions made one after the other: all of them, or the error of the
  first that throws.
\<close>

fun collect :: "(error + 'a) list \<Rightarrow> error + 'a list" where
  "collect [] = Inr []"
| "collect (r # rs) =
     (case r of
        Inl e \<Rightarrow> Inl e
      | Inr x \<Rightarrow> (case collect rs of Inl e \<Rightarrow> Inl e | Inr xs \<Rightarrow> Inr (x # xs)))"

text \<open>
  \<open>String(v)\<close> and template-literal interpolation. The text of a number
  (\<open>Number::toString\<close>) depends on its binary64 representation and is the parameter
  \<open>ns\<close>; every result below holds for every \<open>ns\<close>. An array is the join of its
  elements with a comma, \<open>null\<close> and \<open>undefined\<close> elements reading as empty. An object
  is converted by its \<open>toString\<close> method, which is the one of \<open>Object.prototype\<close>
  unless the object has a property of that name; that property, coming from JSON, is no
  function, \<open>valueOf\<close> then gives no primitive value either, and the conversion throws a
  \<open>TypeError\<close>.
\<close>

fun jsString :: "(jsnum \<Rightarrow> string) \<Rightarrow> jsval \<Rightarrow> error + string" where
  "jsString ns Undefined = Inr ''undefined''"
| "jsString ns Null = Inr ''null''"
| "jsString ns (Bool b) = Inr (if b then ''true'' else ''false'')"
| "jsString ns (Num n) = Inr (ns n)"
| "jsString ns (Str s) = Inr s"
| "jsString ns (Arr xs) =
     (case collect (map (\<lambda>x. if x = Undefined \<or> x = Null then Inr [] else jsString ns x) xs) of
        Inl e \<Rightarrow> Inl e
      | Inr texts \<Rightarrow> Inr (joinWith '','' texts))"
| "jsString ns (Obj kvs) =
     (if hasProp (Obj kvs) ''toString'' then Inl TypeError else Inr ''[object Object]'')"

text \<open>
  The white space and the line terminators that \<open>trim\<close>, \<open>Number\<close> and \<open>parseInt\<close>
  strip, each as its UTF-8 bytes: TAB, LF, VT, FF, CR, SP, U+00A0, U+1680, U+2000 to
  U+200A, U+2028, U+2029, U+202F, U+205F, U+3000 and U+FEFF.
\<close>

definition whiteSpaceCodes :: "string list" where
  "whiteSpaceCodes =
     [[CHR 0x09], [CHR 0x0A], [CHR 0x0B], [CHR 0x0C], [CHR 0x0D], [CHR 0x20],
      [CHR 0xC2, CHR 0xA0],
      [CHR 0xE1, CHR 0x9A, CHR 0x80],
      [CHR 0xE2, CHR 0x80, CHR 0x80], [CHR 0xE2, CHR 0x80, CHR 0x81],
      [CHR 0xE2, CHR 0x80, CHR 0x82], [CHR 0xE2, CHR 0x80, CHR 0x83],
      [CHR 0xE2, CHR 0x80, CHR 0x84], [CHR 0xE2, CHR 0x80, CHR 0x85],
      [CHR 0xE2, CHR 0x80, CHR 0x86], [CHR 0xE2, CHR 0x80, CHR 0x87],
      [CHR 0xE2, CHR 0x80, CHR 0x88], [CHR 0xE2, CHR 0x80, CHR 0x89],
      [CHR 0xE2, CHR 0x80, CHR 0x8A],
      [CHR 0xE2, CHR 0x80, CHR 0xA8], [CHR 0xE2, CHR 0x80, CHR 0xA9],
      [CHR 0xE2, CHR 0x80, CHR 0xAF],
      [CHR 0xE2, CHR 0x81, CHR 0x9F],
      [CHR 0xE3, CHR 0x80, CHR 0x80],
      [CHR 0xEF, CHR 0xBB, CHR 0xBF]]"

text \<open>The text without the codes it starts with.\<close>

function dropLeading :: "string list \<Rightarrow> string \<Rightarrow> string" where
  "dropLeading codes s =
     (case find (\<lambda>w. w \<noteq> [] \<and> prefix w s) codes of
        None \<Rightarrow> s
      | Some w \<Rightarrow> dropLeading codes (drop (length w) s))"
  by pat_completeness auto
termination
proof (relation "measure (\<lambda>(codes, s). length s)")
  show "wf (measure (\<lambda>(codes, s). length s))"
    by simp
next
  fix codes :: "string list" and s w :: string
  assume "find (\<lambda>w. w \<noteq> [] \<and> prefix w s) codes = Some w"
  then have "w \<noteq> []" and "prefix w s"
    by (auto simp: find_Some_iff)
  then have "0 < length w" and "length w \<le> length s"
    by (auto simp: prefix_def)
  then have "length s - length w < length s"
    by arith
  then show "((codes, drop (length w) s), (codes, s)) \<in> measure (\<lambda>(codes, s). length s)"
    by simp
qed

declare dropLeading.simps [simp del]

definition trimStart :: "string \<Rightarrow> string" where
  "trimStart s = dropLeading whiteSpaceCodes s"

definition trimEnd :: "string \<Rightarrow> string" where
  "trimEnd s = rev (dropLeading (map rev whiteSpaceCodes) (rev s))"

definition trim :: "string \<Rightarrow> string" where
  "trim s = trimEnd (trimStart s)"


text \<open>Decimal digits, and the decimal text of a natural number and of an integer.\<close>

definition isDigit :: "char \<Rightarrow> bool" where
  "isDigit c = (c \<in> set ''0123456789'')"

definition digitVal :: "char \<Rightarrow> nat" where
  "digitVal c = (case map_of (zip ''0123456789'' [0, 1, 2, 3, 4, 5, 6, 7, 8, 9]) c of
                   None \<Rightarrow> 0 | Some d \<Rightarrow> d)"

definition digitsVal :: "string \<Rightarrow> nat" where
  "digitsVal ds = foldl (\<lambda>acc c. 10 * acc + digitVal c) 0 ds"

definition digitChar :: "nat \<Rightarrow> char" where
  "digitChar d = ''0123456789'' ! (d mod 10)"

fun showNat :: "nat \<Rightarrow> string" where
  "showNat n = (if n < 10 then [digitChar n] else showNat (n div 10) @ [digitChar n])"

declare showNat.simps [simp del]

definition showInt :: "int \<Rightarrow> string" where
  "showInt i = (if i < 0 then CHR ''-'' # showNat (nat (- i)) else showNat (nat i))"

subsection \<open>More built-ins: Number and encodeURIComponent\<close>

text \<open>
  A finite value stays finite when binary64 can hold it: from \<open>2^1024 - 2^970\<close> on,
  rounding to nearest gives an infinity.
\<close>

definition finiteOrInfinite :: "rat \<Rightarrow> jsnum" where
  "finiteOrInfinite q =
     (if \<bar>q\<bar> < 2 ^ 1024 - 2 ^ 970 then Fin q else if 0 < q then PosInf else NegInf)"

fun negate :: "jsnum \<Rightarrow> jsnum" where
  "negate (Fin q) = Fin (- q)"
| "negate NaN = NaN"
| "negate PosInf = NegInf"
| "negate NegInf = PosInf"

text \<open>
  The exponent part of a decimal literal: nothing, or \<open>e\<close> or \<open>E\<close>, an optional sign and
  at least one digit. \<open>None\<close> when the text is neither.
\<close>

definition exponentPart :: "string \<Rightarrow> int option" where
  "exponentPart s =
     (case s of
        [] \<Rightarrow> Some 0
      | c # r \<Rightarrow>
          if c = CHR ''e'' \<or> c = CHR ''E'' then
            (let neg = (case r of [] \<Rightarrow> False | d # _ \<Rightarrow> d = CHR ''-'');
                 ds = (case r of [] \<Rightarrow> []
                       | d # r' \<Rightarrow> if d = CHR ''-'' \<or> d = CHR ''+'' then r' else r)
             in if ds \<noteq> [] \<and> list_all isDigit ds
                then Some (if neg then - int (digitsVal ds) else int (digitsVal ds))
                else None)
          else None)"

text \<open>
  An unsigned decimal literal: \<open>Infinity\<close>, or digits with an optional fraction and an
  optional exponent, at least one digit before or after the point. Anything else is
  \<open>NaN\<close>.
\<close>

definition unsignedDecimal :: "string \<Rightarrow> jsnum" where
  "unsignedDecimal s =
     (if s = ''Infinity'' then PosInf
      else
        let ip = takeWhile isDigit s;
            r1 = dropWhile isDigit s;
            hasDot = (case r1 of [] \<Rightarrow> False | c # _ \<Rightarrow> c = CHR ''.'');
            fp = (if hasDot then takeWhile isDigit (tl r1) else []);
            r2 = (if hasDot then dropWhile isDigit (tl r1) else r1)
        in if ip = [] \<and> fp = [] then NaN
           else (case exponentPart r2 of
                   None \<Rightarrow> NaN
                 | Some e \<Rightarrow>
                     let m = of_nat (digitsVal (ip @ fp)); e' = e - int (length fp)
                     in finiteOrInfinite
                          (if 0 \<le> e' then m * 10 ^ nat e' else m / 10 ^ nat (- e'))))"

text \<open>
  A binary, octal or hexadecimal integer literal (\<open>0b\<close>, \<open>0o\<close>, \<open>0x\<close>, in either case,
  then at least one digit of the radix); \<open>None\<close> when the text is not one.
\<close>

definition radixDigit :: "nat \<Rightarrow> char \<Rightarrow> nat option" where
  "radixDigit radix c =
     (case map_of (zip ''0123456789abcdefABCDEF''
                     [0, 1, 2, 3, 4, 5, 6, 7, 8, 9, 10, 11, 12, 13, 14, 15, 10, 11, 12, 13, 14, 15]) c of
        None \<Rightarrow> None
      | Some d \<Rightarrow> if d < radix then Some d else None)"

definition radixDigitsVal :: "nat \<Rightarrow> string \<Rightarrow> nat" where
  "radixDigitsVal radix ds =
     foldl (\<lambda>acc c. radix * acc + (case radixDigit radix c of None \<Rightarrow> 0 | Some d \<Rightarrow> d)) 0 ds"

definition nonDecimalLiteral :: "string \<Rightarrow> jsnum option" where
  "nonDecimalLiteral s =
     (case s of
        z # p # ds \<Rightarrow>
          (let radix = (if p = CHR ''x'' \<or> p = CHR ''X'' then 16
                        else if p = CHR ''o'' \<or> p = CHR ''O'' then 8
                        else if p = CHR ''b'' \<or> p = CHR ''B'' then 2 else 0)
           in if z = CHR ''0'' \<and> radix \<noteq> 0 \<and> ds \<noteq> [] \<and>
                 list_all (\<lambda>c. radixDigit radix c \<noteq> None) ds
              then Some (finiteOrInfinite (of_nat (radixDigitsVal radix ds)))
              else None)
      | _ \<Rightarrow> None)"

text \<open>
  The number a string denotes (\<open>StringToNumber\<close>): white space is trimmed at both ends,
  the empty string is \<open>0\<close>, a numeric literal is its value, any other text is \<open>NaN\<close>.
\<close>

definition stringToNumber :: "string \<Rightarrow> jsnum" where
  "stringToNumber s =
     (let t = trim s in
      if t = [] then Fin 0
      else (case nonDecimalLiteral t of
              Some n \<Rightarrow> n
            | None \<Rightarrow>
                (case t of
                   [] \<Rightarrow> Fin 0
                 | c # r \<Rightarrow>
                     if c = CHR ''-'' then negate (unsignedDecimal r)
                     else if c = CHR ''+'' then unsignedDecimal r
                     else unsignedDecimal t)))"

text \<open>
  \<open>Number(v)\<close>: arrays and objects are first turned into their text. For the values
  of JSON that is the text \<open>String\<close> gives (\<open>valueOf\<close> is tried first and gives no
  primitive value), and the \<open>TypeError\<close> where \<open>String\<close> throws.
\<close>

fun jsNumber :: "(jsnum \<Rightarrow> string) \<Rightarrow> jsval \<Rightarrow> error + jsnum" where
  "jsNumber ns Undefined = Inr NaN"
| "jsNumber ns Null = Inr (Fin 0)"
| "jsNumber ns (Bool b) = Inr (if b then Fin 1 else Fin 0)"
| "jsNumber ns (Num n) = Inr n"
| "jsNumber ns (Str s) = Inr (stringToNumber s)"
| "jsNumber ns (Arr xs) =
     (case jsString ns (Arr xs) of Inl e \<Rightarrow> Inl e | Inr s \<Rightarrow> Inr (stringToNumber s))"
| "jsNumber ns (Obj kvs) =
     (case jsString ns (Obj kvs) of Inl e \<Rightarrow> Inl e | Inr s \<Rightarrow> Inr (stringToNumber s))"

text \<open>\<open>Number.isFinite\<close>.\<close>

fun isFinite :: "jsnum \<Rightarrow> bool" where
  "isFinite (Fin q) = True"
| "isFinite _ = False"

text \<open>
  \<open>encodeURIComponent\<close>: the unreserved characters stand for themselves, every other
  byte of the UTF-8 text is written as a percent sign and two hexadecimal digits.
\<close>

definition uriUnreserved :: "char \<Rightarrow> bool" where
  "uriUnreserved c =
     (c \<in> set (''ABCDEFGHIJKLMNOPQRSTUVWXYZabcdefghijklmnopqrstuvwxyz0123456789-_.!~*()''
                @ [CHR 0x27]))"

definition hexDigitChar :: "nat \<Rightarrow> char" where
  "hexDigitChar d = ''0123456789ABCDEF'' ! (d mod 16)"

definition encodeChar :: "char \<Rightarrow> string" where
  "encodeChar c =
     (if uriUnreserved c then [c]
      else [CHR ''%'', hexDigitChar (of_char c div 16), hexDigitChar (of_char c)])"

definition encodeURIComponent :: "string \<Rightarrow> string" where
  "encodeURIComponent s = concat (map encodeChar s)"

text \<open>The UTF-8 bytes of the dash U+2014 that the messages contain.\<close>

definition emDash :: string where
  "emDash = [CHR 0xE2, CHR 0x80, CHR 0x94]"

section \<open>fmp-earnings.ts\<close>

subsection \<open>Public types and constants\<close>

record EarningsEvent =
  symbol :: string
  reportDate :: string
  epsActual :: "jsnum option"
  epsEstimated :: "jsnum option"
  revenueActual :: "jsnum option"
  revenueEstimated :: "jsnum option"
  raw :: jsval

text \<open>\<open>FilterOptions\<close>: the flag is optional.\<close>

record FilterOptions =
  keepUnknown :: "bool option"

definition NYSE_NASDAQ :: "string set" where
  "NYSE_NASDAQ = {''NYSE'', ''NASDAQ''}"

subsection \<open>toNumberOrNull\<close>

text \<open>\<open>None\<close> is \<open>null\<close>; \<open>Number(v)\<close> may throw.\<close>

definition toNumberOrNull :: "(jsnum \<Rightarrow> string) \<Rightarrow> jsval \<Rightarrow> error + jsnum option" where
  "toNumberOrNull ns v =
     (if v = Null \<or> v = Undefined then Inr None
      else (case jsNumber ns v of
              Inl e \<Rightarrow> Inl e
            | Inr n \<Rightarrow> Inr (if isFinite n then Some n else None)))"

subsection \<open>filterNyseNasdaq\<close>

text \<open>The three counters the filter's callback updates.\<close>

record FilterCounts =
  keptNyseNasdaq :: nat
  keptUnknown :: nat
  dropped :: nat

text \<open>The callback of \<open>events.filter\<close>: the verdict on one event and the counters after it.\<close>

definition filterCallback ::
  "(string \<Rightarrow> string) \<Rightarrow> (string \<rightharpoonup> string) \<Rightarrow> bool \<Rightarrow> EarningsEvent \<Rightarrow> FilterCounts
     \<Rightarrow> bool \<times> FilterCounts" where
  "filterCallback toUpperCase symbolToExchange keepUnk ev cnt =
     (let sym = toUpperCase (symbol ev) in
      case symbolToExchange sym of
        None \<Rightarrow>
          if keepUnk then (True, cnt\<lparr>keptUnknown := keptUnknown cnt + 1\<rparr>)
          else (False, cnt\<lparr>dropped := dropped cnt + 1\<rparr>)
      | Some exch \<Rightarrow>
          if exch \<in> NYSE_NASDAQ then (True, cnt\<lparr>keptNyseNasdaq := keptNyseNasdaq cnt + 1\<rparr>)
          else (False, cnt\<lparr>dropped := dropped cnt + 1\<rparr>))"

text \<open>\<open>Array.prototype.filter\<close> with that callback, the counters threaded through.\<close>

fun filterEvents ::
  "(string \<Rightarrow> string) \<Rightarrow> (string \<rightharpoonup> string) \<Rightarrow> bool \<Rightarrow> EarningsEvent list \<Rightarrow> FilterCounts
     \<Rightarrow> EarningsEvent list \<times> FilterCounts" where
  "filterEvents toUpperCase m keepUnk [] cnt = ([], cnt)"
| "filterEvents toUpperCase m keepUnk (ev # evs) cnt =
     (case filterCallback toUpperCase m keepUnk ev cnt of
        (keep, cnt') \<Rightarrow>
          (case filterEvents toUpperCase m keepUnk evs cnt' of
             (result, cnt'') \<Rightarrow> (if keep then ev # result else result, cnt'')))"

text \<open>The filter returns the kept events; the second component is the line it logs.\<close>

definition filterNyseNasdaq ::
  "(string \<Rightarrow> string) \<Rightarrow> EarningsEvent list \<Rightarrow> (string \<rightharpoonup> string) \<Rightarrow> FilterOptions
     \<Rightarrow> EarningsEvent list \<times> string" where
  "filterNyseNasdaq toUpperCase events symbolToExchange options =
     (let keepUnk = (case keepUnknown options of None \<Rightarrow> False | Some b \<Rightarrow> b) in
      case filterEvents toUpperCase symbolToExchange keepUnk events
             \<lparr>keptNyseNasdaq = 0, keptUnknown = 0, dropped = 0\<rparr> of
        (result, cnt) \<Rightarrow>
          (result,
           ''[FMP] Filter: '' @ showNat (keptNyseNasdaq cnt) @ '' NYSE/NASDAQ''
             @ (if keepUnk then '', '' @ showNat (keptUnknown cnt) @ '' unknown (kept)''
                else [])
             @ '', '' @ showNat (dropped cnt) @ '' dropped''
             @ '' (of '' @ showNat (length events) @ '' total events).''))"

subsection \<open>fetchJson\<close>

text \<open>
  What one call of \<open>fetch\<close> gives: a rejection (DNS, connection reset, ...) with the text
  of its error, or a response with its status, its status text and its body as
  \<open>res.json()\<close> reads it (\<open>None\<close> when that fails). The responses to the successive
  calls are a sequence \<open>rs\<close>: \<open>rs i\<close> answers call number \<open>i + 1\<close>. The waits between
  attempts (back-off, jitter, \<open>Retry-After\<close>) change no result and are left out.
\<close>

datatype response =
    NetworkFailure (errorText: string)
  | Http (status: nat) (statusText: string) (body: "jsval option")

definition FMP_BASE :: string where
  "FMP_BASE = ''https://financialmodelingprep.com/stable''"

definition MAX_ATTEMPTS :: nat where
  "MAX_ATTEMPTS = 3"

text \<open>\<open>res.ok\<close>.\<close>

definition ok :: "nat \<Rightarrow> bool" where
  "ok st = (200 \<le> st \<and> st \<le> 299)"

text \<open>
  \<open>url.replace(/apikey=[^&]+/, "apikey=REDACTED")\<close>: the leftmost place where
  \<open>apikey=\<close> is followed by a character other than \<open>&\<close> is found, and the text from
  there up to the next \<open>&\<close> (or the end) is replaced; only that one place.
\<close>

fun redactApiKey :: "string \<Rightarrow> string" where
  "redactApiKey [] = []"
| "redactApiKey (c # cs) =
     (if prefix ''apikey='' (c # cs) \<and>
         (case drop 7 (c # cs) of [] \<Rightarrow> False | d # _ \<Rightarrow> d \<noteq> CHR ''&'')
      then ''apikey=REDACTED'' @ dropWhile (\<lambda>d. d \<noteq> CHR ''&'') (drop 7 (c # cs))
      else c # redactApiKey cs)"

definition isErrorEnvelope :: "jsval \<Rightarrow> bool" where
  "isErrorEnvelope b = (b \<noteq> Null \<and> isObjectType b \<and> \<not> isArray b \<and> hasProp b ''Error Message'')"

text \<open>
  The loop of \<open>fetchJson\<close> from attempt number \<open>attempt\<close> on; \<open>calls\<close> counts the calls
  of \<open>fetch\<close> made so far. The result comes with the number of calls made. The message
  of an error envelope is interpolated into the text of the error, which throws when the
  message is an object that cannot be converted.
\<close>

function fetchAttempts ::
  "(jsnum \<Rightarrow> string) \<Rightarrow> string \<Rightarrow> (nat \<Rightarrow> response) \<Rightarrow> nat \<Rightarrow> nat \<Rightarrow> (error + jsval) \<times> nat" where
  "fetchAttempts ns safeUrl rs attempt calls =
     (if attempt \<le> MAX_ATTEMPTS then
        (case rs calls of
           NetworkFailure networkErr \<Rightarrow>
             if attempt = MAX_ATTEMPTS then
               (Inl (Error (''[FMP] Network error after '' @ showNat attempt @ '' attempts ''
                       @ emDash @ '' '' @ safeUrl @ '': '' @ networkErr)),
                calls + 1)
             else fetchAttempts ns safeUrl rs (attempt + 1) (calls + 1)
         | Http st stText bdy \<Rightarrow>
             if st = 429 \<or> st = 503 then
               (if attempt < MAX_ATTEMPTS then
                  fetchAttempts ns safeUrl rs (attempt + 1) (calls + 1)
                else
                  (Inl (Error (''[FMP] Rate-limited ('' @ showNat st @ '') after ''
                          @ showNat MAX_ATTEMPTS @ '' attempts '' @ emDash @ '' '' @ safeUrl)),
                   calls + 1))
             else if \<not> ok st then
               (Inl (Error (''[FMP] HTTP '' @ showNat st @ '' '' @ stText @ '' '' @ emDash
                       @ '' '' @ safeUrl)),
                calls + 1)
             else
               (case bdy of
                  None \<Rightarrow> (Inl (Error (''[FMP] Non-JSON response from '' @ safeUrl)), calls + 1)
                | Some b \<Rightarrow>
                    if isErrorEnvelope b then
                      (case jsString ns (getProp b ''Error Message'') of
                         Inl e \<Rightarrow> (Inl e, calls + 1)
                       | Inr msg \<Rightarrow>
                           (Inl (Error (''[FMP] API error: '' @ msg @ '' '' @ emDash @ '' ''
                                   @ safeUrl)),
                            calls + 1))
                    else (Inr b, calls + 1)))
      else
        (Inl (Error (''[FMP] Exhausted '' @ showNat MAX_ATTEMPTS @ '' attempts '' @ emDash
                @ '' '' @ safeUrl)),
         calls))"
  by pat_completeness auto
termination
  by (relation "measure (\<lambda>(ns, safeUrl, rs, attempt, calls). Suc MAX_ATTEMPTS - attempt)") auto

declare fetchAttempts.simps [simp del]

definition fetchJson ::
  "(jsnum \<Rightarrow> string) \<Rightarrow> string \<Rightarrow> (nat \<Rightarrow> response) \<Rightarrow> (error + jsval) \<times> nat" where
  "fetchJson ns url rs = fetchAttempts ns (redactApiKey url) rs 1 0"

subsection \<open>Validation\<close>

text \<open>\<open>assertApiKey\<close>: the error it throws, if any.\<close>

definition assertApiKey :: "string \<Rightarrow> string \<Rightarrow> error option" where
  "assertApiKey apiKey context =
     (if apiKey = [] \<or> trim apiKey = [] then
        Some (Error (''[FMP] Missing API key in '' @ context @ ''. ''
                @ ''Set FMP_API_KEY in your environment or .env file.''))
      else None)"

subsection \<open>fetchFmpEarningsCalendar\<close>

text \<open>
  The object that \<open>events.push\<close> is given, its four numeric fields coerced in the order
  they are written; a coercion that throws leaves no event.
\<close>

definition newEvent ::
  "(jsnum \<Rightarrow> string) \<Rightarrow> string \<Rightarrow> string \<Rightarrow> jsval \<Rightarrow> error + EarningsEvent" where
  "newEvent ns symb rd item =
     (case toNumberOrNull ns (getProp item ''epsActual'') of
        Inl e \<Rightarrow> Inl e
      | Inr ea \<Rightarrow>
     (case toNumberOrNull ns (getProp item ''epsEstimated'') of
        Inl e \<Rightarrow> Inl e
      | Inr ee \<Rightarrow>
     (case toNumberOrNull ns (getProp item ''revenueActual'') of
        Inl e \<Rightarrow> Inl e
      | Inr ra \<Rightarrow>
     (case toNumberOrNull ns (getProp item ''revenueEstimated'') of
        Inl e \<Rightarrow> Inl e
      | Inr re \<Rightarrow>
          Inr \<lparr>symbol = symb, reportDate = rd, epsActual = ea, epsEstimated = ee,
               revenueActual = ra, revenueEstimated = re, raw = item\<rparr>))))"

text \<open>
  The loop over the records of the response: the events built so far and the records
  warned about so far are carried along. Reading \<open>item["symbol"]\<close> throws when the record
  is \<open>null\<close>, and \<open>String\<close> and \<open>Number\<close> throw on an object that cannot be
  converted; the symbol and the date are both read before either is tested.
\<close>

fun calendarLoop ::
  "(jsnum \<Rightarrow> string) \<Rightarrow> jsval list \<Rightarrow> EarningsEvent list \<Rightarrow> jsval list
     \<Rightarrow> (error + EarningsEvent list) \<times> jsval list" where
  "calendarLoop ns [] events warned = (Inr events, warned)"
| "calendarLoop ns (item # rest) events warned =
     (if throwsOnRead item then (Inl TypeError, warned)
      else
        (case jsString ns (nullish (getProp item ''symbol'') (Str '''')) of
           Inl e \<Rightarrow> (Inl e, warned)
         | Inr symbolText \<Rightarrow>
        (case jsString ns (nullish (getProp item ''date'') (Str '''')) of
           Inl e \<Rightarrow> (Inl e, warned)
         | Inr dateText \<Rightarrow>
             if trim symbolText = [] \<or> trim dateText = []
             then calendarLoop ns rest events (warned @ [item])
             else
               (case newEvent ns (trim symbolText) (trim dateText) item of
                  Inl e \<Rightarrow> (Inl e, warned)
                | Inr ev \<Rightarrow> calendarLoop ns rest (events @ [ev]) warned))))"

definition calendarUrl :: "string \<Rightarrow> string \<Rightarrow> string \<Rightarrow> string" where
  "calendarUrl fromDate toDate apiKey =
     FMP_BASE @ ''/earnings-calendar''
       @ ''?from='' @ encodeURIComponent fromDate
       @ ''&to='' @ encodeURIComponent toDate
       @ ''&apikey='' @ encodeURIComponent apiKey"

text \<open>
  The result, the records warned about (in order) and the number of calls of \<open>fetch\<close>.
\<close>

definition fetchFmpEarningsCalendar ::
  "(jsnum \<Rightarrow> string) \<Rightarrow> string \<Rightarrow> string \<Rightarrow> string \<Rightarrow> (nat \<Rightarrow> response)
     \<Rightarrow> (error + EarningsEvent list) \<times> jsval list \<times> nat" where
  "fetchFmpEarningsCalendar ns fromDate toDate apiKey rs =
     (case assertApiKey apiKey ''fetchFmpEarningsCalendar'' of
        Some e \<Rightarrow> (Inl e, [], 0)
      | None \<Rightarrow>
          (case fetchJson ns (calendarUrl fromDate toDate apiKey) rs of
             (Inl e, calls) \<Rightarrow> (Inl e, [], calls)
           | (Inr data, calls) \<Rightarrow>
               (case data of
                  Arr items \<Rightarrow>
                    (case calendarLoop ns items [] [] of
                       (r, warned) \<Rightarrow> (r, warned, calls))
                | _ \<Rightarrow> (Inl (ErrorNotArray ''earnings-calendar'' data), [], calls))))"

subsection \<open>buildSymbolToExchangeMap\<close>

text \<open>
  A JavaScript \<open>Map\<close> at run time: its entries in insertion order. Strings, numbers,
  booleans, \<open>null\<close> and \<open>undefined\<close> are compared by value, and such a key occurs
  once. Objects and arrays are compared by identity; the model has no identities, but the
  only keys of that kind come from the entries of a parsed cache file, where every object
  and every array is a new one, so that such a key equals no key set before it.
  \<open>map.size\<close> is \<open>length m\<close>, and for a string \<open>k\<close>, \<open>map.get(k)\<close> is
  \<open>map_of m (Str k)\<close>.
\<close>

type_synonym jsmap = "(jsval \<times> jsval) list"

fun mapSet :: "jsval \<Rightarrow> jsval \<Rightarrow> jsmap \<Rightarrow> jsmap" where
  "mapSet k v [] = [(k, v)]"
| "mapSet k v ((k', v') # m) =
     (if k' = k \<and> \<not> (isObjectType k \<and> k \<noteq> Null) then (k, v) # m
      else (k', v') # mapSet k v m)"

text \<open>\<open>new Map(pairs)\<close>.\<close>

definition newMap :: "(jsval \<times> jsval) list \<Rightarrow> jsmap" where
  "newMap pairs = foldl (\<lambda>m (k, v). mapSet k v m) [] pairs"

text \<open>
  The loop over the records of the stock list. Reading \<open>item["symbol"]\<close> throws when the
  record is \<open>null\<close>, and \<open>String\<close> throws on an object that cannot be converted.
\<close>

fun stockListLoop ::
  "(jsnum \<Rightarrow> string) \<Rightarrow> (string \<Rightarrow> string) \<Rightarrow> jsval list \<Rightarrow> jsmap \<Rightarrow> error + jsmap" where
  "stockListLoop ns toUpperCase [] m = Inr m"
| "stockListLoop ns toUpperCase (item # rest) m =
     (if throwsOnRead item then Inl TypeError
      else
        (case jsString ns (nullish (getProp item ''symbol'') (Str '''')) of
           Inl e \<Rightarrow> Inl e
         | Inr symbolText \<Rightarrow>
             let sym = trim (toUpperCase symbolText);
                 exchRaw =
                   nullish (getProp item ''exchangeShortName'')
                     (nullish (getProp item ''exchange_short_name'')
                        (nullish (getProp item ''exchange'') (Str '''')))
             in (case jsString ns exchRaw of
                   Inl e \<Rightarrow> Inl e
                 | Inr exchText \<Rightarrow>
                     let exch = trim (toUpperCase exchText)
                     in stockListLoop ns toUpperCase rest
                          (if sym \<noteq> [] \<and> exch \<noteq> [] then mapSet (Str sym) (Str exch) m
                           else m))))"

text \<open>
  The cache file as \<open>tryLoadCache\<close> meets it: \<open>readFile\<close> fails (the file is absent or
  cannot be read), or \<open>JSON.parse\<close> fails on its text, or the text parses to a value.
\<close>

datatype cacheFile = FileAbsent | FileUnreadable | FileNotJson | FileJson jsval

text \<open>Seven days, in milliseconds.\<close>

definition CACHE_TTL_MS :: rat where
  "CACHE_TTL_MS = 7 * 24 * 60 * 60 * 1000"

text \<open>\<open>Date.now() - builtAt > CACHE_TTL_MS\<close>, with the clock \<open>now\<close> in milliseconds.\<close>

fun isStale :: "int \<Rightarrow> jsnum \<Rightarrow> bool" where
  "isStale now (Fin b) = (of_int now - b > CACHE_TTL_MS)"
| "isStale now NaN = False"
| "isStale now PosInf = False"
| "isStale now NegInf = True"

text \<open>
  \<open>tryLoadCache\<close>: \<open>Inr None\<close> is the miss (\<open>null\<close>), \<open>Inr (Some (map, builtAt))\<close> the
  hit. Reading \<open>payload.builtAt\<close> throws when the file holds \<open>null\<close>, and so does taking
  \<open>symbol\<close> and \<open>exchange\<close> out of an entry that is \<open>null\<close>; neither is caught.
\<close>

definition tryLoadCache :: "cacheFile \<Rightarrow> int \<Rightarrow> error + (jsmap \<times> jsnum) option" where
  "tryLoadCache file now =
     (case file of
        FileAbsent \<Rightarrow> Inr None
      | FileUnreadable \<Rightarrow> Inr None
      | FileNotJson \<Rightarrow> Inr None
      | FileJson payload \<Rightarrow>
          if throwsOnRead payload then Inl TypeError
          else
            (case getProp payload ''builtAt'' of
               Num builtAt \<Rightarrow>
                 (case getProp payload ''entries'' of
                    Arr entries \<Rightarrow>
                      if isStale now builtAt then Inr None
                      else if list_ex throwsOnRead entries then Inl TypeError
                      else Inr (Some (newMap (map (\<lambda>entry. (getProp entry ''symbol'',
                                                           getProp entry ''exchange'')) entries),
                                      builtAt))
                  | _ \<Rightarrow> Inr None)
             | _ \<Rightarrow> Inr None))"

text \<open>The payload \<open>persistCache\<close> writes (the write itself may fail, which is not fatal).\<close>

definition cachePayload :: "int \<Rightarrow> jsmap \<Rightarrow> jsval" where
  "cachePayload now m =
     Obj [(''builtAt'', Num (Fin (of_int now))),
          (''entries'', Arr (map (\<lambda>(symbol, exchange).
                                   Obj [(''symbol'', symbol), (''exchange'', exchange)]) m))]"

definition stockListUrl :: "string \<Rightarrow> string" where
  "stockListUrl apiKey = FMP_BASE @ ''/stock-list?apikey='' @ encodeURIComponent apiKey"

text \<open>
  What a run of the builder does: its result, the number of calls of \<open>fetch\<close>, and the
  payload it hands to \<open>persistCache\<close>, if any.
\<close>

record BuildOutcome =
  result :: "error + jsmap"
  networkCalls :: nat
  cacheWrite :: "jsval option"

definition buildSymbolToExchangeMap ::
  "(jsnum \<Rightarrow> string) \<Rightarrow> (string \<Rightarrow> string) \<Rightarrow> string \<Rightarrow> cacheFile \<Rightarrow> int \<Rightarrow> (nat \<Rightarrow> response)
     \<Rightarrow> BuildOutcome" where
  "buildSymbolToExchangeMap ns toUpperCase apiKey file now rs =
     (case assertApiKey apiKey ''buildSymbolToExchangeMap'' of
        Some e \<Rightarrow> \<lparr>result = Inl e, networkCalls = 0, cacheWrite = None\<rparr>
      | None \<Rightarrow>
          (case tryLoadCache file now of
             Inl e \<Rightarrow> \<lparr>result = Inl e, networkCalls = 0, cacheWrite = None\<rparr>
           | Inr (Some (m, builtAt)) \<Rightarrow> \<lparr>result = Inr m, networkCalls = 0, cacheWrite = None\<rparr>
           | Inr None \<Rightarrow>
               (case fetchJson ns (stockListUrl apiKey) rs of
                  (Inl e, calls) \<Rightarrow> \<lparr>result = Inl e, networkCalls = calls, cacheWrite = None\<rparr>
                | (Inr data, calls) \<Rightarrow>
                    (case data of
                       Arr items \<Rightarrow>
                         if items = [] then
                           \<lparr>result = Inl (Error (''[FMP] stock-list: response was an empty array ''
                                        @ emDash @ '' ''
                                        @ ''verify API key permissions or try again later.'')),
                            networkCalls = calls, cacheWrite = None\<rparr>
                         else
                           (case stockListLoop ns toUpperCase items [] of
                              Inl e \<Rightarrow> \<lparr>result = Inl e, networkCalls = calls, cacheWrite = None\<rparr>
                            | Inr m \<Rightarrow>
                                if length m = 0 then
                                  \<lparr>result = Inl (Error
                                       (''[FMP] stock-list: parsed 0 valid symbol''
                                          @ [CHR 0xE2, CHR 0x86, CHR 0x92] @ ''exchange pairs. ''
                                          @ ''Response shape may have changed '' @ emDash
                                          @ '' inspect the raw payload.'')),
                                   networkCalls = calls, cacheWrite = None\<rparr>
                                else
                                  \<lparr>result = Inr m, networkCalls = calls,
                                   cacheWrite = Some (cachePayload now m)\<rparr>)
                     | _ \<Rightarrow>
                         \<lparr>result = Inl (ErrorNotArray ''stock-list'' data),
                          networkCalls = calls, cacheWrite = None\<rparr>))))"

section \<open>transcript-provider.ts\<close>

subsection \<open>More built-ins: split and parseInt\<close>

text \<open>\<open>s.split(sep)\<close> for a separator of one character.\<close>

fun splitOn :: "char \<Rightarrow> string \<Rightarrow> string list" where
  "splitOn sep [] = [[]]"
| "splitOn sep (c # cs) =
     (if c = sep then [] # splitOn sep cs
      else (case splitOn sep cs of [] \<Rightarrow> [[c]] | p # ps \<Rightarrow> (c # p) # ps))"

text \<open>
  \<open>parts[i]!\<close> passed to \<open>parseInt\<close>: the element, or the text of \<open>undefined\<close> when
  the array is too short.
\<close>

definition partText :: "string list \<Rightarrow> nat \<Rightarrow> string" where
  "partText parts i = (if i < length parts then parts ! i else ''undefined'')"

text \<open>
  \<open>parseInt(s, 10)\<close>: leading white space is skipped, then an optional sign, then the
  longest run of decimal digits is read; \<open>None\<close> is \<open>NaN\<close> (no digit there). The value is
  exact (JavaScript rounds beyond \<open>2^53\<close>).
\<close>

definition parseInt10 :: "string \<Rightarrow> int option" where
  "parseInt10 s =
     (let t = trimStart s;
          neg = (case t of [] \<Rightarrow> False | c # _ \<Rightarrow> c = CHR ''-'');
          u = (case t of [] \<Rightarrow> [] | c # r \<Rightarrow> if c = CHR ''-'' \<or> c = CHR ''+'' then r else t);
          ds = takeWhile isDigit u
      in if ds = [] then None
         else Some (if neg then - int (digitsVal ds) else int (digitsVal ds)))"

subsection \<open>dateToFiscalYearQuarter\<close>

record FiscalPeriod =
  year :: int
  quarter :: int

definition dateToFiscalYearQuarter :: "string \<Rightarrow> error + FiscalPeriod" where
  "dateToFiscalYearQuarter callDate =
     (let parts = splitOn CHR ''-'' callDate;
          y = parseInt10 (partText parts 0);
          m = parseInt10 (partText parts 1)
      in case (y, m) of
           (Some yr, Some month) \<Rightarrow>
             if month \<le> 3 then Inr \<lparr>year = yr - 1, quarter = 4\<rparr>
             else if month \<le> 6 then Inr \<lparr>year = yr, quarter = 1\<rparr>
             else if month \<le> 9 then Inr \<lparr>year = yr, quarter = 2\<rparr>
             else Inr \<lparr>year = yr, quarter = 3\<rparr>
         | _ \<Rightarrow>
             Inl (Error (''[TranscriptProvider] Invalid callDate '' @ [CHR 0x22] @ callDate
                    @ [CHR 0x22] @ '' '' @ emDash @ '' expected ISO-8601 (YYYY-MM-DD).'')))"

subsection \<open>The providers\<close>

text \<open>The field \<open>text\<close> of the source is \<open>text'\<close> here.\<close>

record Transcript =
  symbol :: string
  callDate :: string
  text' :: string
  raw :: jsval

text \<open>Two line feeds, the separator of speaker turns.\<close>

definition blankLine :: string where
  "blankLine = [CHR 0x0A, CHR 0x0A]"

text \<open>
  The loop of \<open>extractNinjasText\<close> over the speaker turns; reading \<open>turn["speaker"]\<close>
  throws when the turn is \<open>null\<close>, and \<open>String\<close> throws on an object that cannot be
  converted.
\<close>

fun turnLines :: "(jsnum \<Rightarrow> string) \<Rightarrow> jsval list \<Rightarrow> string list \<Rightarrow> error + string list" where
  "turnLines ns [] lines = Inr lines"
| "turnLines ns (turn # rest) lines =
     (if throwsOnRead turn then Inl TypeError
      else
        (case jsString ns (nullish (getProp turn ''speaker'') (Str ''Unknown'')) of
           Inl e \<Rightarrow> Inl e
         | Inr speakerText \<Rightarrow>
        (case jsString ns (nullish (getProp turn ''text'') (Str '''')) of
           Inl e \<Rightarrow> Inl e
         | Inr turnText \<Rightarrow>
             let speaker = trim speakerText; txt = trim turnText
             in turnLines ns rest
                  (if txt \<noteq> [] then lines @ [speaker @ '': '' @ txt] else lines))))"

text \<open>The free path of \<open>extractNinjasText\<close>: the plain \<open>transcript\<close> field.\<close>

definition ninjasPlainText ::
  "(jsnum \<Rightarrow> string) \<Rightarrow> jsval \<Rightarrow> string \<Rightarrow> int \<Rightarrow> int \<Rightarrow> error + string" where
  "ninjasPlainText ns rw symb yr q =
     (case jsString ns (nullish (getProp rw ''transcript'') (Str '''')) of
        Inl e \<Rightarrow> Inl e
      | Inr plain \<Rightarrow>
          let txt = trim plain in
          if txt \<noteq> [] then Inr txt
          else Inl (TranscriptNotFoundError symb (showInt yr @ ''Q'' @ showInt q) ''API Ninjas''))"

definition extractNinjasText ::
  "(jsnum \<Rightarrow> string) \<Rightarrow> jsval \<Rightarrow> string \<Rightarrow> int \<Rightarrow> int \<Rightarrow> error + string" where
  "extractNinjasText ns rw symb yr q =
     (case nullish (getProp rw ''transcript_split'') (getProp rw ''transcript_by_speaker'') of
        Arr split \<Rightarrow>
          if length split > 0 then
            (case turnLines ns split [] of
               Inl e \<Rightarrow> Inl e
             | Inr lines \<Rightarrow>
                 if length lines > 0 then Inr (joinWith blankLine lines)
                 else ninjasPlainText ns rw symb yr q)
          else ninjasPlainText ns rw symb yr q
      | _ \<Rightarrow> ninjasPlainText ns rw symb yr q)"

text \<open>\<open>Array.isArray(data) ? data[0] : data\<close>.\<close>

definition firstIfArray :: "jsval \<Rightarrow> jsval" where
  "firstIfArray data =
     (case data of Arr xs \<Rightarrow> (case xs of [] \<Rightarrow> Undefined | x # _ \<Rightarrow> x) | _ \<Rightarrow> data)"

text \<open>
  \<open>NinjasTranscriptProvider.fetchTranscript\<close>, given what its one call of \<open>fetch\<close>
  gives. An invalid call date fails before the call is made.
\<close>

definition ninjasFetchTranscript ::
  "(jsnum \<Rightarrow> string) \<Rightarrow> (string \<Rightarrow> string) \<Rightarrow> string \<Rightarrow> string \<Rightarrow> response
     \<Rightarrow> error + Transcript" where
  "ninjasFetchTranscript ns toUpperCase symb date res =
     (case dateToFiscalYearQuarter date of
        Inl e \<Rightarrow> Inl e
      | Inr period \<Rightarrow>
          (case res of
             NetworkFailure err \<Rightarrow> Inl (FetchFailed err)
           | Http st stText bdy \<Rightarrow>
               if st = 404 then Inl (TranscriptNotFoundError symb date ''API Ninjas'')
               else if \<not> ok st then
                 Inl (Error (''[API Ninjas] HTTP '' @ showNat st @ '' for '' @ symb @ '' ''
                        @ showInt (year period) @ ''Q'' @ showInt (quarter period) @ ''.''))
               else
                 (case bdy of
                    None \<Rightarrow>
                      Inl (Error (''[API Ninjas] Non-JSON response for '' @ symb @ '' ''
                             @ showInt (year period) @ ''Q'' @ showInt (quarter period) @ ''.''))
                  | Some data \<Rightarrow>
                      let rw = firstIfArray data in
                      if \<not> truthy rw \<or> \<not> isObjectType rw then
                        Inl (TranscriptNotFoundError symb date ''API Ninjas'')
                      else
                        (case extractNinjasText ns rw symb (year period) (quarter period) of
                           Inl e \<Rightarrow> Inl e
                         | Inr txt \<Rightarrow>
                             Inr \<lparr>symbol = toUpperCase symb, callDate = date, text' = txt,
                                  raw = rw\<rparr>))))"

text \<open>\<open>FmpTranscriptProvider.fetchTranscript\<close>, in the same way.\<close>

definition isFmpErrorEnvelope :: "jsval \<Rightarrow> bool" where
  "isFmpErrorEnvelope b =
     (b \<noteq> Null \<and> isObjectType b \<and> \<not> isArray b \<and> hasProp b ''Error Message'')"

definition fmpFetchTranscript ::
  "(jsnum \<Rightarrow> string) \<Rightarrow> (string \<Rightarrow> string) \<Rightarrow> string \<Rightarrow> string \<Rightarrow> response
     \<Rightarrow> error + Transcript" where
  "fmpFetchTranscript ns toUpperCase symb date res =
     (case dateToFiscalYearQuarter date of
        Inl e \<Rightarrow> Inl e
      | Inr period \<Rightarrow>
          (case res of
             NetworkFailure err \<Rightarrow> Inl (FetchFailed err)
           | Http st stText bdy \<Rightarrow>
               if st = 404 then Inl (TranscriptNotFoundError symb date ''FMP'')
               else if \<not> ok st then
                 Inl (Error (''[FMP] HTTP '' @ showNat st @ '' for '' @ symb @ '' ''
                        @ showInt (year period) @ ''Q'' @ showInt (quarter period) @ ''.''))
               else
                 (case bdy of
                    None \<Rightarrow>
                      Inl (Error (''[FMP] Non-JSON response for '' @ symb @ '' ''
                             @ showInt (year period) @ ''Q'' @ showInt (quarter period) @ ''.''))
                  | Some data \<Rightarrow>
                      if isFmpErrorEnvelope data then
                        (case jsString ns (getProp data ''Error Message'') of
                           Inl e \<Rightarrow> Inl e
                         | Inr msg \<Rightarrow> Inl (Error (''[FMP] API error: '' @ msg)))
                      else
                        let rw = firstIfArray data in
                        if \<not> truthy rw \<or> \<not> isObjectType rw then
                          Inl (TranscriptNotFoundError symb date ''FMP'')
                        else
                          (case jsString ns (nullish (getProp rw ''content'') (Str '''')) of
                             Inl e \<Rightarrow> Inl e
                           | Inr content \<Rightarrow>
                               let txt = trim content
                               in if txt = [] then Inl (TranscriptNotFoundError symb date ''FMP'')
                                  else Inr \<lparr>symbol = toUpperCase symb, callDate = date,
                                            text' = txt, raw = rw\<rparr>))))"

section \<open>Properties\<close>

subsection \<open>The built-ins\<close>

lemma dropLeading_none:
  assumes "\<forall>w \<in> set codes. \<not> (w \<noteq> [] \<and> prefix w s)"
  shows "dropLeading codes s = s"
proof -
  from assms have "find (\<lambda>w. w \<noteq> [] \<and> prefix w s) codes = None"
    by (simp add: find_None_iff)
  then show ?thesis
    by (subst dropLeading.simps) simp
qed

lemma trim_empty: "trim [] = []"
  by (simp add: trim_def trimStart_def trimEnd_def dropLeading_none)

lemma trimStart_digit: "isDigit c \<Longrightarrow> trimStart (c # r) = c # r"
  unfolding trimStart_def
  by (rule dropLeading_none) (auto simp: isDigit_def whiteSpaceCodes_def)

lemma collect_error: "collect rs = Inl e \<Longrightarrow> Inl e \<in> set rs"
  by (induction rs) (auto split: sum.splits)

lemma jsString_error: "jsString ns v = Inl e \<Longrightarrow> e = TypeError"
proof (induction ns v rule: jsString.induct)
  case (6 ns xs)
  from "6.prems" have "collect (map (\<lambda>x. if x = Undefined \<or> x = Null then Inr [] else jsString ns x) xs) = Inl e"
    by (simp split: sum.splits)
  then have "Inl e \<in> set (map (\<lambda>x. if x = Undefined \<or> x = Null then Inr [] else jsString ns x) xs)"
    by (rule collect_error)
  then obtain x where "x \<in> set xs" and "\<not> (x = Undefined \<or> x = Null)"
    and "jsString ns x = Inl e"
    by (auto split: if_splits)
  then show ?case
    by (rule "6.IH")
qed (simp_all split: if_splits)

lemma jsNumber_error: "jsNumber ns v = Inl e \<Longrightarrow> e = TypeError"
  by (cases v) (auto simp del: jsString.simps split: sum.splits dest: jsString_error)

text \<open>
  \<open>String\<close> gives a text for every string, number and boolean, for \<open>null\<close> and
  \<open>undefined\<close>, and for every object that has no \<open>toString\<close> property of its own.
\<close>

lemma jsString_returns:
  assumes "\<not> isArray v" and "\<not> hasProp v ''toString''"
  shows "\<exists>s. jsString ns v = Inr s"
  using assms by (cases v) simp_all

subsection \<open>The exchange filter\<close>

lemma filterEvents_result:
  "fst (filterEvents toUpperCase m keepUnk evs cnt) =
     filter (\<lambda>ev. fst (filterCallback toUpperCase m keepUnk ev cnt0)) evs"
proof (induction evs arbitrary: cnt)
  case Nil
  show ?case by simp
next
  case (Cons ev evs)
  have verdict: "fst (filterCallback toUpperCase m keepUnk ev cnt) =
      fst (filterCallback toUpperCase m keepUnk ev cnt0)"
    by (simp add: filterCallback_def Let_def split: option.split)
  show ?case
    using Cons.IH [of "snd (filterCallback toUpperCase m keepUnk ev cnt)"] verdict
    by (simp add: split_beta)
qed

lemma filterCallback_verdict:
  "fst (filterCallback toUpperCase m keepUnk ev cnt) =
     (m (toUpperCase (EarningsEvent.symbol ev)) \<in> {Some ''NYSE'', Some ''NASDAQ''} \<or>
      (keepUnk \<and> m (toUpperCase (EarningsEvent.symbol ev)) = None))"
  by (auto simp: filterCallback_def Let_def NYSE_NASDAQ_def split: option.split)

lemma filterNyseNasdaq_result:
  "fst (filterNyseNasdaq toUpperCase events m options) =
     fst (filterEvents toUpperCase m
            (case keepUnknown options of None \<Rightarrow> False | Some b \<Rightarrow> b) events
            \<lparr>keptNyseNasdaq = 0, keptUnknown = 0, dropped = 0\<rparr>)"
  by (simp add: filterNyseNasdaq_def Let_def split_beta)

text \<open>
  C1. For every list of events, every exchange map and every setting of the flag, the
  events the filter returns are exactly, in their order and unchanged, the events whose
  uppercased symbol the map sends to \<open>NYSE\<close> or \<open>NASDAQ\<close>, together with, only when
  \<open>keepUnknown\<close> is true, the events whose uppercased symbol the map does not hold. So
  an event whose symbol the map sends to any other exchange is dropped whatever the flag,
  and an event absent from the map is dropped when the flag is false or not given.
\<close>

theorem filterNyseNasdaq_keeps_exactly:
  "fst (filterNyseNasdaq toUpperCase events m options) =
     filter (\<lambda>ev. m (toUpperCase (EarningsEvent.symbol ev)) \<in> {Some ''NYSE'', Some ''NASDAQ''} \<or>
                   (keepUnknown options = Some True \<and> m (toUpperCase (EarningsEvent.symbol ev)) = None))
       events"
proof -
  let ?k = "case keepUnknown options of None \<Rightarrow> False | Some b \<Rightarrow> b"
  have flag: "?k = (keepUnknown options = Some True)"
    by (simp split: option.split)
  have "fst (filterNyseNasdaq toUpperCase events m options) =
          filter (\<lambda>ev. fst (filterCallback toUpperCase m ?k ev undefined)) events"
    by (simp only: filterNyseNasdaq_result filterEvents_result [where ?cnt0.0 = undefined])
  then show ?thesis
    by (simp only: filterCallback_verdict flag)
qed

text \<open>
  C10. The filter is idempotent: applied, with the same map and the same options (so in
  particular with \<open>keepUnknown\<close> false or not given), to the list it has returned, it
  returns that list again.
\<close>

theorem filterNyseNasdaq_idempotent:
  "fst (filterNyseNasdaq toUpperCase (fst (filterNyseNasdaq toUpperCase events m options)) m options) =
     fst (filterNyseNasdaq toUpperCase events m options)"
proof -
  let ?k = "case keepUnknown options of None \<Rightarrow> False | Some b \<Rightarrow> b"
  let ?keep = "\<lambda>ev. fst (filterCallback toUpperCase m ?k ev undefined)"
  have once: "fst (filterNyseNasdaq toUpperCase evs m options) = filter ?keep evs" for evs
    by (simp only: filterNyseNasdaq_result filterEvents_result [where ?cnt0.0 = undefined])
  show ?thesis
    by (simp add: once)
qed

subsection \<open>The fiscal period of a call date\<close>

lemma splitOn_last: "sep \<notin> set xs \<Longrightarrow> splitOn sep xs = [xs]"
  by (induction xs) auto

lemma splitOn_append:
  "sep \<notin> set xs \<Longrightarrow> splitOn sep (xs @ sep # rest) = xs # splitOn sep rest"
  by (induction xs) auto

lemma isDigit_not_sign: "isDigit c \<Longrightarrow> c \<noteq> CHR ''-'' \<and> c \<noteq> CHR ''+''"
  by (auto simp: isDigit_def)

lemma digits_no_dash: "\<forall>c \<in> set ds. isDigit c \<Longrightarrow> CHR ''-'' \<notin> set ds"
  using isDigit_not_sign by blast

lemma parseInt10_digits:
  assumes "ds \<noteq> []" and "\<forall>c \<in> set ds. isDigit c"
  shows "parseInt10 ds = Some (int (digitsVal ds))"
proof -
  obtain c r where ds: "ds = c # r"
    using assms(1) by (cases ds) auto
  have c: "isDigit c"
    using assms(2) ds by simp
  have t: "trimStart ds = ds"
    using trimStart_digit [OF c] by (simp add: ds)
  have tw: "takeWhile isDigit ds = ds"
    using assms(2) by (simp add: takeWhile_eq_all_conv)
  have u: "(case ds of [] \<Rightarrow> [] | c # r \<Rightarrow> if c = CHR ''-'' \<or> c = CHR ''+'' then r else ds) = ds"
    using isDigit_not_sign [OF c] by (simp add: ds)
  have n: "(case ds of [] \<Rightarrow> False | c # _ \<Rightarrow> c = CHR ''-'') = False"
    using isDigit_not_sign [OF c] by (simp add: ds)
  show ?thesis
    using assms(1) by (simp only: parseInt10_def t Let_def u n tw if_False)
qed

lemma dateToFiscalYearQuarter_digits:
  assumes ys: "ys \<noteq> []" "\<forall>c \<in> set ys. isDigit c"
      and ms: "ms \<noteq> []" "\<forall>c \<in> set ms. isDigit c"
      and rest: "rest = [] \<or> (\<exists>r. rest = CHR ''-'' # r)"
  shows "dateToFiscalYearQuarter (ys @ CHR ''-'' # ms @ rest) =
     (if digitsVal ms \<le> 3 then Inr \<lparr>year = int (digitsVal ys) - 1, quarter = 4\<rparr>
      else if digitsVal ms \<le> 6 then Inr \<lparr>year = int (digitsVal ys), quarter = 1\<rparr>
      else if digitsVal ms \<le> 9 then Inr \<lparr>year = int (digitsVal ys), quarter = 2\<rparr>
      else Inr \<lparr>year = int (digitsVal ys), quarter = 3\<rparr>)"
proof -
  have "\<exists>more. splitOn CHR ''-'' (ms @ rest) = ms # more"
    using rest digits_no_dash [OF ms(2)] by (auto simp: splitOn_append splitOn_last)
  then obtain more where "splitOn CHR ''-'' (ys @ CHR ''-'' # ms @ rest) = ys # ms # more"
    using digits_no_dash [OF ys(2)] by (auto simp: splitOn_append)
  then have parts: "partText (splitOn CHR ''-'' (ys @ CHR ''-'' # ms @ rest)) 0 = ys"
      "partText (splitOn CHR ''-'' (ys @ CHR ''-'' # ms @ rest)) (Suc 0) = ms"
    by (simp_all add: partText_def)
  have y: "parseInt10 ys = Some (int (digitsVal ys))"
    using ys by (rule parseInt10_digits)
  have m: "parseInt10 ms = Some (int (digitsVal ms))"
    using ms by (rule parseInt10_digits)
  show ?thesis
    by (simp add: dateToFiscalYearQuarter_def parts y m Let_def)
qed

text \<open>
  C5. A call date in the ISO-8601 form \<open>YYYY-MM-DD\<close>, with four decimal digits for the
  year \<open>Y\<close> and two for the month \<open>M\<close> (the same holds for \<open>YYYY-MM\<close>, and
  whatever follows the day, such as a time), is mapped by \<open>dateToFiscalYearQuarter\<close>,
  the one function both transcript providers call, to quarter 4 of year \<open>Y - 1\<close> when
  \<open>M\<close> is 1 to 3, and to quarters 1, 2, 3 of year \<open>Y\<close> when \<open>M\<close> is 4 to 6, 7 to 9,
  10 to 12. The witness is the date \<open>2026-02-25\<close>, which resolves to the fourth quarter
  of 2025.
\<close>

theorem dateToFiscalYearQuarter_iso:
  assumes "length ys = 4" and "length ms = 2"
      and "\<forall>c \<in> set (ys @ ms). isDigit c"
      and "rest = [] \<or> (\<exists>r. rest = CHR ''-'' # r)"
  shows "(digitsVal ms \<in> {1..3} \<longrightarrow>
            dateToFiscalYearQuarter (ys @ ''-'' @ ms @ rest) =
              Inr \<lparr>year = int (digitsVal ys) - 1, quarter = 4\<rparr>) \<and>
         (digitsVal ms \<in> {4..6} \<longrightarrow>
            dateToFiscalYearQuarter (ys @ ''-'' @ ms @ rest) =
              Inr \<lparr>year = int (digitsVal ys), quarter = 1\<rparr>) \<and>
         (digitsVal ms \<in> {7..9} \<longrightarrow>
            dateToFiscalYearQuarter (ys @ ''-'' @ ms @ rest) =
              Inr \<lparr>year = int (digitsVal ys), quarter = 2\<rparr>) \<and>
         (digitsVal ms \<in> {10..12} \<longrightarrow>
            dateToFiscalYearQuarter (ys @ ''-'' @ ms @ rest) =
              Inr \<lparr>year = int (digitsVal ys), quarter = 3\<rparr>)"
proof -
  have ys: "ys \<noteq> []" and ms: "ms \<noteq> []"
    using assms(1,2) by auto
  have "dateToFiscalYearQuarter (ys @ CHR ''-'' # ms @ rest) =
     (if digitsVal ms \<le> 3 then Inr \<lparr>year = int (digitsVal ys) - 1, quarter = 4\<rparr>
      else if digitsVal ms \<le> 6 then Inr \<lparr>year = int (digitsVal ys), quarter = 1\<rparr>
      else if digitsVal ms \<le> 9 then Inr \<lparr>year = int (digitsVal ys), quarter = 2\<rparr>
      else Inr \<lparr>year = int (digitsVal ys), quarter = 3\<rparr>)"
    using ys ms assms(3,4) by (intro dateToFiscalYearQuarter_digits) auto
  then show ?thesis
    by simp
qed

theorem dateToFiscalYearQuarter_iso_witness:
  "length ''2026'' = 4 \<and> length ''02'' = 2 \<and> list_all isDigit (''2026'' @ ''02'') \<and>
   digitsVal ''02'' = 2 \<and>
   dateToFiscalYearQuarter ''2026-02-25'' = Inr \<lparr>year = 2025, quarter = 4\<rparr>"
proof -
  have digits: "\<forall>c \<in> set (''2026'' @ ''02''). isDigit c"
    by (simp add: isDigit_def)
  have month: "digitsVal ''02'' = 2" and yr: "digitsVal ''2026'' = 2026"
    by (simp_all add: digitsVal_def digitVal_def)
  have "dateToFiscalYearQuarter (''2026'' @ ''-'' @ ''02'' @ ''-25'') =
          Inr \<lparr>year = int (digitsVal ''2026'') - 1, quarter = 4\<rparr>"
    using dateToFiscalYearQuarter_iso [of "''2026''" "''02''" "''-25''", OF _ _ digits] month
    by simp
  then show ?thesis
    using month yr by (simp add: isDigit_def)
qed

subsection \<open>The numeric coercion\<close>

lemma toNumberOrNull_finite_or_null:
  "toNumberOrNull ns v = Inl TypeError \<or> toNumberOrNull ns v = Inr None \<or>
   (\<exists>q. toNumberOrNull ns v = Inr (Some (Fin q)))"
proof (cases "jsNumber ns v")
  case (Inl e)
  with jsNumber_error [OF Inl] show ?thesis
    by (simp add: toNumberOrNull_def)
next
  case (Inr n)
  then show ?thesis
    by (cases n) (simp_all add: toNumberOrNull_def)
qed

lemma toNumberOrNull_not_a_number:
  "toNumberOrNull ns (Str ''abc'') = Inr None \<and> toNumberOrNull ns (Num PosInf) = Inr None \<and>
   toNumberOrNull ns (Num NaN) = Inr None \<and> toNumberOrNull ns Undefined = Inr None"
  by code_simp

text \<open>
  C2. When the coercion returns, it never returns \<open>NaN\<close>, an infinity or a string
  (\<open>toNumberOrNull_finite_or_null\<close>), and text that is no number, \<open>NaN\<close> and the
  infinities become \<open>null\<close>. The empty string does not: \<open>Number("")\<close> is \<open>0\<close>, which is
  finite, so the coercion returns \<open>0\<close> where the claim, and the repository's own
  description of the helper, say \<open>null\<close>.
\<close>

theorem toNumberOrNull_empty_string:
  "toNumberOrNull ns (Str '''') = Inr (Some (Fin 0))"
  by (simp add: toNumberOrNull_def stringToNumber_def trim_empty)

text \<open>The same in a record of the calendar: an empty \<open>epsActual\<close> is read as \<open>0\<close>.\<close>

lemma calendarLoop_empty_eps:
  "calendarLoop ns
     [Obj [(''symbol'', Str ''AAPL''), (''date'', Str ''2026-02-25''), (''epsActual'', Str '''')]]
     [] [] =
   (Inr [\<lparr>EarningsEvent.symbol = ''AAPL'', reportDate = ''2026-02-25'',
          epsActual = Some (Fin 0), epsEstimated = None, revenueActual = None,
          revenueEstimated = None,
          raw = Obj [(''symbol'', Str ''AAPL''), (''date'', Str ''2026-02-25''),
                     (''epsActual'', Str '''')]\<rparr>], [])"
  by code_simp

subsection \<open>The retry policy of fetchJson\<close>

lemma retry_step:
  assumes "calls + 1 < c \<and> c + (attempt + 1) \<le> calls + 1 + Suc MAX_ATTEMPTS \<and>
           (\<forall>i. calls + 1 \<le> i \<and> Suc i < c \<longrightarrow> R i) \<and> L"
      and "R calls"
  shows "calls < c \<and> c + attempt \<le> calls + Suc MAX_ATTEMPTS \<and>
         (\<forall>i. calls \<le> i \<and> Suc i < c \<longrightarrow> R i) \<and> L"
proof -
  have "R i" if "calls \<le> i" and "Suc i < c" for i
  proof (cases "i = calls")
    case True
    with assms(2) show ?thesis by simp
  next
    case False
    with that have "calls + 1 \<le> i" by simp
    with assms(1) that show ?thesis by blast
  qed
  with assms(1) show ?thesis
    by auto
qed

lemma fetchAttempts_inv:
  assumes "fetchAttempts ns u rs attempt calls = (r, c)" and "attempt \<le> MAX_ATTEMPTS"
  shows "calls < c \<and> c + attempt \<le> calls + Suc MAX_ATTEMPTS \<and>
         (\<forall>i. calls \<le> i \<and> Suc i < c \<longrightarrow>
              is_NetworkFailure (rs i) \<or> status (rs i) = 429 \<or> status (rs i) = 503) \<and>
         (is_NetworkFailure (rs (c - 1)) \<or> status (rs (c - 1)) = 429 \<or> status (rs (c - 1)) = 503
            \<or> \<not> ok (status (rs (c - 1))) \<or> body (rs (c - 1)) = None \<longrightarrow> isl r)"
  using assms
proof (induction ns u rs attempt calls rule: fetchAttempts.induct)
  case (1 ns safeUrl rs attempt calls)
  note step = "1.prems"(1) [unfolded fetchAttempts.simps [of ns safeUrl rs attempt calls]]
  show ?case
  proof (cases "rs calls")
    case (NetworkFailure err)
    show ?thesis
    proof (cases "attempt = MAX_ATTEMPTS")
      case True
      with step NetworkFailure "1.prems"(2) show ?thesis
        by auto
    next
      case False
      with step NetworkFailure "1.prems"(2)
      have rec: "fetchAttempts ns safeUrl rs (attempt + 1) (calls + 1) = (r, c)"
        and le: "attempt + 1 \<le> MAX_ATTEMPTS"
        by auto
      have "is_NetworkFailure (rs calls) \<or> status (rs calls) = 429 \<or> status (rs calls) = 503"
        using NetworkFailure by simp
      with "1.IH"(1) [OF "1.prems"(2) NetworkFailure False rec le]
      show ?thesis
        by (rule retry_step)
    qed
  next
    case (Http st stText bdy)
    show ?thesis
    proof (cases "st = 429 \<or> st = 503")
      case retry: True
      show ?thesis
      proof (cases "attempt < MAX_ATTEMPTS")
        case True
        with step Http retry
        have rec: "fetchAttempts ns safeUrl rs (attempt + 1) (calls + 1) = (r, c)"
          and le: "attempt + 1 \<le> MAX_ATTEMPTS"
          by auto
        have "is_NetworkFailure (rs calls) \<or> status (rs calls) = 429 \<or> status (rs calls) = 503"
          using Http retry by auto
        with "1.IH"(2) [OF "1.prems"(2) Http retry True rec le]
        show ?thesis
          by (rule retry_step)
      next
        case False
        with step Http retry "1.prems"(2) show ?thesis
          by auto
      qed
    next
      case False
      with step Http "1.prems"(2) show ?thesis
        by (auto split: if_splits option.splits sum.splits)
    qed
  qed
qed

text \<open>
  C7. Whatever the responses, \<open>fetchJson\<close> calls \<open>fetch\<close> at least once and at most
  three times. Every call but the last was answered by a transport failure or by status
  429 or 503: only those lead to another attempt. A call answered by any other status
  that is not a success, or by a success whose body is not JSON, is the last call, and
  \<open>fetchJson\<close> fails.
\<close>

theorem fetchJson_retry_policy:
  assumes "fetchJson ns url rs = (r, calls)"
  shows "1 \<le> calls \<and> calls \<le> 3 \<and>
         (\<forall>i. Suc i < calls \<longrightarrow>
              is_NetworkFailure (rs i) \<or> status (rs i) = 429 \<or> status (rs i) = 503) \<and>
         (\<forall>i < calls.
              \<not> is_NetworkFailure (rs i) \<and> status (rs i) \<noteq> 429 \<and> status (rs i) \<noteq> 503 \<and>
              (\<not> ok (status (rs i)) \<or> body (rs i) = None)
              \<longrightarrow> calls = Suc i \<and> isl r)"
proof -
  let ?retry = "\<lambda>i. is_NetworkFailure (rs i) \<or> status (rs i) = 429 \<or> status (rs i) = 503"
  from assms have run: "fetchAttempts ns (redactApiKey url) rs 1 0 = (r, calls)"
    by (simp add: fetchJson_def)
  have inv: "0 < calls" "calls \<le> 3" "\<forall>i. Suc i < calls \<longrightarrow> ?retry i"
    "?retry (calls - 1) \<or> \<not> ok (status (rs (calls - 1))) \<or> body (rs (calls - 1)) = None \<longrightarrow> isl r"
    using fetchAttempts_inv [OF run] by (simp_all add: MAX_ATTEMPTS_def)
  have "calls = Suc i \<and> isl r"
    if "i < calls" and "\<not> ?retry i" and "\<not> ok (status (rs i)) \<or> body (rs i) = None" for i
  proof -
    from inv(3) that(2) have "\<not> Suc i < calls"
      by blast
    with that(1) have c: "calls = Suc i"
      by simp
    with inv(4) that(3) show ?thesis
      by simp
  qed
  with inv(1-3) show ?thesis
    by auto
qed

theorem fetchJson_retry_policy_witness:
  "fetchJson (\<lambda>n. ''0'') ''https://h/p?apikey=K''
     ((!) [Http 503 ''Service Unavailable'' None, NetworkFailure ''fetch failed'',
           Http 500 ''Internal Server Error'' None]) =
     (Inl (Error (''[FMP] HTTP 500 Internal Server Error '' @ emDash @ '' https://h/p?apikey=REDACTED'')), 3)
   \<and> (1::nat) \<le> 3 \<and> (3::nat) \<le> 3 \<and>
   isl (Inl (Error (''[FMP] HTTP 500 Internal Server Error '' @ emDash @ '' https://h/p?apikey=REDACTED'')) :: error + jsval)"
proof -
  let ?rs = "(!) [Http 503 ''Service Unavailable'' None, NetworkFailure ''fetch failed'',
           Http 500 ''Internal Server Error'' None]"
  let ?r = "Inl (Error (''[FMP] HTTP 500 Internal Server Error '' @ emDash @ '' https://h/p?apikey=REDACTED'')) :: error + jsval"
  have run: "fetchJson (\<lambda>n. ''0'') ''https://h/p?apikey=K'' ?rs = (?r, 3)"
    by code_simp
  from fetchJson_retry_policy [OF run] run show ?thesis
    by simp
qed

subsection \<open>The events of the calendar\<close>

lemma newEvent_fields:
  assumes "newEvent ns symb rd item = Inr ev"
  shows "EarningsEvent.symbol ev = symb \<and> reportDate ev = rd \<and> EarningsEvent.raw ev = item"
  using assms by (auto simp: newEvent_def split: sum.splits)

lemma calendarLoop_inv:
  assumes "calendarLoop ns items events warned = (Inr evs, ws)"
  shows "\<exists>new. evs = events @ new \<and>
           (\<forall>e \<in> set new. EarningsEvent.symbol e \<noteq> [] \<and> reportDate e \<noteq> []) \<and>
           map EarningsEvent.raw new =
             filter (\<lambda>item.
                 (\<exists>s. jsString ns (nullish (getProp item ''symbol'') (Str '''')) = Inr s \<and> trim s \<noteq> []) \<and>
                 (\<exists>d. jsString ns (nullish (getProp item ''date'') (Str '''')) = Inr d \<and> trim d \<noteq> []))
               items \<and>
           ws = warned @
             filter (\<lambda>item. \<not>
                ((\<exists>s. jsString ns (nullish (getProp item ''symbol'') (Str '''')) = Inr s \<and> trim s \<noteq> []) \<and>
                 (\<exists>d. jsString ns (nullish (getProp item ''date'') (Str '''')) = Inr d \<and> trim d \<noteq> [])))
               items"
  using assms
proof (induction items arbitrary: events warned)
  case Nil
  then show ?case by simp
next
  case (Cons item rest)
  let ?usable = "\<lambda>item.
                 (\<exists>s. jsString ns (nullish (getProp item ''symbol'') (Str '''')) = Inr s \<and> trim s \<noteq> []) \<and>
                 (\<exists>d. jsString ns (nullish (getProp item ''date'') (Str '''')) = Inr d \<and> trim d \<noteq> [])"
  from Cons.prems have readable: "\<not> throwsOnRead item"
    by (auto split: if_splits)
  from Cons.prems readable obtain symbolText dateText where
    texts: "jsString ns (nullish (getProp item ''symbol'') (Str '''')) = Inr symbolText"
           "jsString ns (nullish (getProp item ''date'') (Str '''')) = Inr dateText"
    by (auto split: sum.splits)
  show ?case
  proof (cases "trim symbolText = [] \<or> trim dateText = []")
    case True
    with Cons.prems readable texts
    have "calendarLoop ns rest events (warned @ [item]) = (Inr evs, ws)"
      by simp
    from Cons.IH [OF this] True texts show ?thesis
      by auto
  next
    case False
    with Cons.prems readable texts obtain ev where
      ev: "newEvent ns (trim symbolText) (trim dateText) item = Inr ev" and
      run: "calendarLoop ns rest (events @ [ev]) warned = (Inr evs, ws)"
      by (auto split: sum.splits)
    from Cons.IH [OF run] obtain new where
      new: "evs = (events @ [ev]) @ new"
           "\<forall>e \<in> set new. EarningsEvent.symbol e \<noteq> [] \<and> reportDate e \<noteq> []"
           "map EarningsEvent.raw new = filter ?usable rest"
           "ws = warned @ filter (\<lambda>item. \<not> ?usable item) rest"
      by blast
    have usable: "?usable item"
      using False texts by simp
    show ?thesis
      by (rule exI [of _ "ev # new"]) (use new False usable newEvent_fields [OF ev] in simp)
  qed
qed

text \<open>
  C8. Whatever the responses, when \<open>fetchFmpEarningsCalendar\<close> returns events, every one
  of them has a non-empty symbol and a non-empty report date. The events come, in order,
  from exactly the records of the response whose \<open>symbol\<close> and \<open>date\<close> both trim to a
  non-empty text; every other record is skipped and warned about, and no event is built
  from it.
\<close>

theorem fetchFmpEarningsCalendar_events_nonempty:
  assumes "fetchFmpEarningsCalendar ns fromDate toDate apiKey rs = (Inr events, warned, calls)"
  shows "(\<forall>e \<in> set events. EarningsEvent.symbol e \<noteq> [] \<and> reportDate e \<noteq> []) \<and>
         (\<exists>items.
            fst (fetchJson ns (calendarUrl fromDate toDate apiKey) rs) = Inr (Arr items) \<and>
            map EarningsEvent.raw events =
              filter (\<lambda>item.
                  (\<exists>s. jsString ns (nullish (getProp item ''symbol'') (Str '''')) = Inr s \<and> trim s \<noteq> []) \<and>
                  (\<exists>d. jsString ns (nullish (getProp item ''date'') (Str '''')) = Inr d \<and> trim d \<noteq> []))
                items \<and>
            warned =
              filter (\<lambda>item. \<not>
                 ((\<exists>s. jsString ns (nullish (getProp item ''symbol'') (Str '''')) = Inr s \<and> trim s \<noteq> []) \<and>
                  (\<exists>d. jsString ns (nullish (getProp item ''date'') (Str '''')) = Inr d \<and> trim d \<noteq> [])))
                items)"
proof -
  from assms obtain items where
    body: "fst (fetchJson ns (calendarUrl fromDate toDate apiKey) rs) = Inr (Arr items)" and
    loop: "calendarLoop ns items [] [] = (Inr events, warned)"
    by (auto simp: fetchFmpEarningsCalendar_def
        split: option.splits prod.splits sum.splits jsval.splits)
  from calendarLoop_inv [OF loop] body show ?thesis
    by auto
qed

theorem fetchFmpEarningsCalendar_events_nonempty_witness:
  "fetchFmpEarningsCalendar (\<lambda>n. ''0'') ''2026-02-24'' ''2026-02-28'' ''K''
     ((!) [Http 200 ''OK'' (Some (Arr
        [Obj [(''symbol'', Str ''AAPL''), (''date'', Str ''2026-02-25'')],
         Obj [(''symbol'', Str '' ''), (''date'', Str ''2026-02-26'')],
         Obj [(''symbol'', Str ''MSFT'')]]))]) =
     (Inr [\<lparr>EarningsEvent.symbol = ''AAPL'', reportDate = ''2026-02-25'', epsActual = None,
            epsEstimated = None, revenueActual = None, revenueEstimated = None,
            raw = Obj [(''symbol'', Str ''AAPL''), (''date'', Str ''2026-02-25'')]\<rparr>],
      [Obj [(''symbol'', Str '' ''), (''date'', Str ''2026-02-26'')], Obj [(''symbol'', Str ''MSFT'')]],
      1)
   \<and> ''AAPL'' \<noteq> [] \<and> ''2026-02-25'' \<noteq> []"
proof -
  let ?rs = "(!) [Http 200 ''OK'' (Some (Arr
        [Obj [(''symbol'', Str ''AAPL''), (''date'', Str ''2026-02-25'')],
         Obj [(''symbol'', Str '' ''), (''date'', Str ''2026-02-26'')],
         Obj [(''symbol'', Str ''MSFT'')]]))]"
  let ?ev = "\<lparr>EarningsEvent.symbol = ''AAPL'', reportDate = ''2026-02-25'', epsActual = None,
            epsEstimated = None, revenueActual = None, revenueEstimated = None,
            raw = Obj [(''symbol'', Str ''AAPL''), (''date'', Str ''2026-02-25'')]\<rparr>"
  have run: "fetchFmpEarningsCalendar (\<lambda>n. ''0'') ''2026-02-24'' ''2026-02-28'' ''K'' ?rs =
     (Inr [?ev],
      [Obj [(''symbol'', Str '' ''), (''date'', Str ''2026-02-26'')], Obj [(''symbol'', Str ''MSFT'')]],
      1)"
    by code_simp
  from fetchFmpEarningsCalendar_events_nonempty [OF run] run show ?thesis
    by simp
qed

subsection \<open>Redaction of the API key\<close>

lemma prefix_of_long_enough:
  assumes "prefix xs (ys @ zs)" and "length xs \<le> length ys"
  shows "prefix xs ys"
proof -
  from assms(1) consider "prefix xs ys" | us where "xs = ys @ us" "prefix us zs"
    by (auto simp: prefix_append)
  then show ?thesis
  proof cases
    case 1
    then show ?thesis .
  next
    case 2
    with assms(2) have "us = []" by simp
    with 2 show ?thesis by simp
  qed
qed

lemma dropWhile_value:
  assumes "CHR ''&'' \<notin> set key" and "rest = [] \<or> (\<exists>r. rest = CHR ''&'' # r)"
  shows "dropWhile (\<lambda>d. d \<noteq> CHR ''&'') (key @ rest) = rest"
  using assms by (induction key) auto

lemma redactApiKey_here:
  assumes "key \<noteq> []" and "CHR ''&'' \<notin> set key" and "rest = [] \<or> (\<exists>r. rest = CHR ''&'' # r)"
  shows "redactApiKey (''apikey='' @ key @ rest) = ''apikey=REDACTED'' @ rest"
proof -
  obtain k ks where key: "key = k # ks"
    using assms(1) by (cases key) auto
  have k: "k \<noteq> CHR ''&''"
    using assms(2) key by auto
  have "dropWhile (\<lambda>d. d \<noteq> CHR ''&'') (key @ rest) = rest"
    using assms(2,3) by (rule dropWhile_value)
  then show ?thesis
    using k by (simp add: key)
qed

lemma redactApiKey_no_match:
  assumes "\<not> prefix ''apikey='' (c # cs)"
  shows "redactApiKey (c # cs) = c # redactApiKey cs"
  by (simp only: redactApiKey.simps(2) assms simp_thms if_False)

lemma redactApiKey_parameter:
  assumes "\<not> sublist ''apikey='' (pre @ ''apikey'')"
      and "key \<noteq> []" and "CHR ''&'' \<notin> set key" and "rest = [] \<or> (\<exists>r. rest = CHR ''&'' # r)"
  shows "redactApiKey (pre @ ''apikey='' @ key @ rest) = pre @ ''apikey=REDACTED'' @ rest"
  using assms(1)
proof (induction pre)
  case Nil
  show ?case
    using redactApiKey_here [OF assms(2-4)] by simp
next
  case (Cons c p)
  define tail where "tail = ''='' @ key @ rest"
  have no_match: "\<not> prefix ''apikey='' (c # (p @ ''apikey'' @ tail))"
  proof
    assume "prefix ''apikey='' (c # (p @ ''apikey'' @ tail))"
    then have "prefix ''apikey='' (((c # p) @ ''apikey'') @ tail)"
      by (simp only: append_Cons append_assoc)
    then have "prefix ''apikey='' ((c # p) @ ''apikey'')"
      by (rule prefix_of_long_enough) simp
    then have "sublist ''apikey='' ((c # p) @ ''apikey'')"
      by (rule prefix_imp_sublist)
    with Cons.prems show False ..
  qed
  have "\<not> sublist ''apikey='' (p @ ''apikey'')"
    using Cons.prems by (auto simp: sublist_Cons_right)
  from Cons.IH [OF this]
  have IH: "redactApiKey (p @ ''apikey'' @ tail) = p @ ''apikey=REDACTED'' @ rest"
    by (simp add: tail_def)
  have "redactApiKey ((c # p) @ ''apikey='' @ key @ rest) = redactApiKey (c # (p @ ''apikey'' @ tail))"
    by (simp add: tail_def)
  also have "\<dots> = c # redactApiKey (p @ ''apikey'' @ tail)"
    using no_match by (rule redactApiKey_no_match)
  also have "\<dots> = (c # p) @ ''apikey=REDACTED'' @ rest"
    by (subst IH) simp
  finally show ?case .
qed

text \<open>The two URLs the module builds.\<close>

lemma uriUnreserved_plain: "uriUnreserved c \<Longrightarrow> c \<noteq> CHR ''='' \<and> c \<noteq> CHR ''&''"
  by (auto simp: uriUnreserved_def)

lemma hexDigitChar_plain: "hexDigitChar d \<noteq> CHR ''='' \<and> hexDigitChar d \<noteq> CHR ''&''"
proof -
  have "hexDigitChar d \<in> set ''0123456789ABCDEF''"
    unfolding hexDigitChar_def by (rule nth_mem) simp
  then show ?thesis
    by auto
qed

lemma encodeChar_plain: "CHR ''='' \<notin> set (encodeChar c) \<and> CHR ''&'' \<notin> set (encodeChar c)"
  using uriUnreserved_plain [of c] hexDigitChar_plain [of "of_char c div 16"]
    hexDigitChar_plain [of "of_char c"]
  by (auto simp: encodeChar_def)

lemma encodeURIComponent_plain:
  "CHR ''='' \<notin> set (encodeURIComponent s) \<and> CHR ''&'' \<notin> set (encodeURIComponent s)"
  using encodeChar_plain by (auto simp: encodeURIComponent_def)

lemma encodeURIComponent_nonempty: "s \<noteq> [] \<Longrightarrow> encodeURIComponent s \<noteq> []"
  by (cases s) (auto simp: encodeURIComponent_def encodeChar_def)

lemma redactApiKey_skip:
  assumes "CHR ''='' \<notin> set xs" and "rest = [] \<or> (\<exists>r. rest = CHR ''&'' # r)"
  shows "redactApiKey (xs @ rest) = xs @ redactApiKey rest"
  using assms(1)
proof (induction xs)
  case Nil
  show ?case by simp
next
  case (Cons c cs)
  have no_match: "\<not> prefix ''apikey='' (c # (cs @ rest))"
  proof
    assume "prefix ''apikey='' (c # (cs @ rest))"
    then have "prefix ''apikey='' ((c # cs) @ rest)"
      by (simp only: append_Cons)
    then consider "prefix ''apikey='' (c # cs)"
      | us where "''apikey='' = (c # cs) @ us" "prefix us rest"
      by (auto simp only: prefix_append)
    then show False
    proof cases
      case 1
      then have "set ''apikey='' \<subseteq> set (c # cs)"
        by (rule set_mono_prefix)
      with Cons.prems show False
        by auto
    next
      case 2
      have "us \<noteq> []"
      proof
        assume "us = []"
        with 2(1) have "set (c # cs) = set ''apikey=''"
          by simp
        with Cons.prems show False
          by auto
      qed
      then obtain u us' where us: "us = u # us'"
        by (cases us) auto
      with 2(2) assms(2) have "u = CHR ''&''"
        by auto
      moreover have "u \<in> set ''apikey=''"
        by (subst 2(1)) (simp add: us)
      ultimately show False
        by simp
    qed
  qed
  have "redactApiKey ((c # cs) @ rest) = c # redactApiKey (cs @ rest)"
    using redactApiKey_no_match [OF no_match] by (simp only: append_Cons)
  also have "\<dots> = (c # cs) @ redactApiKey rest"
    using Cons by simp
  finally show ?case .
qed

lemma calendarUrl_redacted:
  assumes "apiKey \<noteq> []"
  shows "redactApiKey (calendarUrl fromDate toDate apiKey) =
           FMP_BASE @ ''/earnings-calendar'' @ ''?from='' @ encodeURIComponent fromDate
             @ ''&to='' @ encodeURIComponent toDate @ ''&apikey=REDACTED''"
proof -
  define param where "param = ''apikey='' @ encodeURIComponent apiKey @ []"
  define fromTo where "fromTo = CHR ''&'' # param"
  define toPart where "toPart = ''&to='' @ encodeURIComponent toDate @ fromTo"
  have param: "redactApiKey param = ''apikey=REDACTED''"
    unfolding param_def
    using redactApiKey_here [of "encodeURIComponent apiKey" "[]"]
      encodeURIComponent_nonempty [OF assms] encodeURIComponent_plain [of apiKey]
    by simp
  have "\<not> prefix ''apikey='' (CHR ''&'' # param)"
    by simp
  then have "redactApiKey (CHR ''&'' # param) = CHR ''&'' # redactApiKey param"
    by (rule redactApiKey_no_match)
  then have fromTo: "redactApiKey fromTo = ''&apikey=REDACTED''"
    unfolding fromTo_def by (simp only: param)
  have "redactApiKey (encodeURIComponent toDate @ fromTo) =
          encodeURIComponent toDate @ redactApiKey fromTo"
    using encodeURIComponent_plain [of toDate]
    by (intro redactApiKey_skip) (simp_all add: fromTo_def)
  then have toPart: "redactApiKey toPart = ''&to='' @ encodeURIComponent toDate @ ''&apikey=REDACTED''"
    unfolding toPart_def by (simp add: fromTo)
  have "redactApiKey (encodeURIComponent fromDate @ toPart) =
          encodeURIComponent fromDate @ redactApiKey toPart"
    using encodeURIComponent_plain [of fromDate]
    by (intro redactApiKey_skip) (simp_all add: toPart_def)
  then have "redactApiKey (FMP_BASE @ ''/earnings-calendar'' @ ''?from=''
                 @ encodeURIComponent fromDate @ toPart) =
      FMP_BASE @ ''/earnings-calendar'' @ ''?from='' @ encodeURIComponent fromDate
             @ ''&to='' @ encodeURIComponent toDate @ ''&apikey=REDACTED''"
    by (simp add: FMP_BASE_def toPart)
  moreover have "calendarUrl fromDate toDate apiKey =
      FMP_BASE @ ''/earnings-calendar'' @ ''?from='' @ encodeURIComponent fromDate @ toPart"
    by (simp add: calendarUrl_def toPart_def fromTo_def param_def)
  ultimately show ?thesis
    by (simp only:)
qed

lemma stockListUrl_redacted:
  assumes "apiKey \<noteq> []"
  shows "redactApiKey (stockListUrl apiKey) = FMP_BASE @ ''/stock-list?apikey=REDACTED''"
proof -
  define param where "param = ''apikey='' @ encodeURIComponent apiKey @ []"
  have param: "redactApiKey param = ''apikey=REDACTED''"
    unfolding param_def
    using redactApiKey_here [of "encodeURIComponent apiKey" "[]"]
      encodeURIComponent_nonempty [OF assms] encodeURIComponent_plain [of apiKey]
    by simp
  have "redactApiKey (FMP_BASE @ ''/stock-list?'' @ param) =
          FMP_BASE @ ''/stock-list?apikey=REDACTED''"
    by (simp add: FMP_BASE_def param)
  moreover have "stockListUrl apiKey = FMP_BASE @ ''/stock-list?'' @ param"
    by (simp add: stockListUrl_def param_def)
  ultimately show ?thesis
    by (simp only:)
qed

lemma module_urls_hide_the_key:
  assumes "apiKey \<noteq> []" and "apiKey' \<noteq> []"
  shows "fetchJson ns (calendarUrl fromDate toDate apiKey) rs =
           fetchJson ns (calendarUrl fromDate toDate apiKey') rs"
    and "fetchJson ns (stockListUrl apiKey) rs = fetchJson ns (stockListUrl apiKey') rs"
  using assms by (simp_all add: fetchJson_def calendarUrl_redacted stockListUrl_redacted)

text \<open>
  Every error of \<open>fetchJson\<close> is an \<open>Error\<close> whose message holds the redacted URL,
  or the \<open>TypeError\<close> of an envelope whose message cannot be converted to a string.
\<close>

lemma fetchAttempts_message:
  assumes "fetchAttempts ns u rs attempt calls = (Inl e, c)"
  shows "e = TypeError \<or> (\<exists>a b. e = Error (a @ u @ b))"
  using assms
proof (induction ns u rs attempt calls rule: fetchAttempts.induct)
  case (1 ns safeUrl rs attempt calls)
  note step = "1.prems" [unfolded fetchAttempts.simps [of ns safeUrl rs attempt calls]]
  have shape: "\<exists>a b. Error (x @ safeUrl @ y) = Error (a @ safeUrl @ b)" for x y
    by blast
  have shape': "\<exists>a b. Error (x @ safeUrl) = Error (a @ safeUrl @ b)" for x
    by (rule exI [of _ x], rule exI [of _ "[]"]) simp
  show ?case
  proof (cases "attempt \<le> MAX_ATTEMPTS")
    case False
    with step shape' [of "''[FMP] Exhausted '' @ showNat MAX_ATTEMPTS @ '' attempts '' @ emDash @ '' ''"]
    show ?thesis by auto
  next
    case le: True
    show ?thesis
    proof (cases "rs calls")
      case (NetworkFailure err)
      show ?thesis
      proof (cases "attempt = MAX_ATTEMPTS")
        case True
        with step NetworkFailure le
          shape [of "''[FMP] Network error after '' @ showNat attempt @ '' attempts '' @ emDash @ '' ''" "'': '' @ err"]
        show ?thesis by auto
      next
        case False
        with step NetworkFailure le
        have "fetchAttempts ns safeUrl rs (attempt + 1) (calls + 1) = (Inl e, c)"
          by auto
        from "1.IH"(1) [OF le NetworkFailure False this] show ?thesis .
      qed
    next
      case (Http st stText bdy)
      show ?thesis
      proof (cases "st = 429 \<or> st = 503")
        case retry: True
        show ?thesis
        proof (cases "attempt < MAX_ATTEMPTS")
          case True
          with step Http retry le
          have "fetchAttempts ns safeUrl rs (attempt + 1) (calls + 1) = (Inl e, c)"
            by auto
          from "1.IH"(2) [OF le Http retry True this] show ?thesis .
        next
          case False
          with step Http retry le
            shape' [of "''[FMP] Rate-limited ('' @ showNat st @ '') after '' @ showNat MAX_ATTEMPTS @ '' attempts '' @ emDash @ '' ''"]
          show ?thesis by auto
        qed
      next
        case noretry: False
        show ?thesis
        proof (cases "ok st")
          case False
          with step Http noretry le
            shape' [of "''[FMP] HTTP '' @ showNat st @ '' '' @ stText @ '' '' @ emDash @ '' ''"]
          show ?thesis by auto
        next
          case True
          show ?thesis
          proof (cases bdy)
            case None
            with step Http noretry le True shape' [of "''[FMP] Non-JSON response from ''"]
            show ?thesis by auto
          next
            case (Some b)
            show ?thesis
            proof (cases "jsString ns (getProp b ''Error Message'')")
              case (Inl e')
              with step Http noretry le True Some jsString_error [OF Inl]
              show ?thesis by (auto split: if_splits)
            next
              case (Inr msg)
              with step Http noretry le True Some
                shape' [of "''[FMP] API error: '' @ msg @ '' '' @ emDash @ '' ''"]
              show ?thesis by (auto split: if_splits)
            qed
          qed
        qed
      qed
    qed
  qed
qed

lemma fetchJson_message_has_redacted_url:
  assumes "fst (fetchJson ns url rs) = Inl e"
  shows "e = TypeError \<or> (\<exists>msg. e = Error msg \<and> sublist (redactApiKey url) msg)"
proof -
  from assms have "fetchAttempts ns (redactApiKey url) rs 1 0 = (Inl e, snd (fetchJson ns url rs))"
    by (simp add: fetchJson_def prod_eq_iff)
  from fetchAttempts_message [OF this] show ?thesis
    by (metis sublist_appendI)
qed

text \<open>
  C9. On every failure path the URL in the message is the redacted one
  (\<open>fetchJson_message_has_redacted_url\<close>), and in the two URLs the module builds the
  value of the key is replaced by \<open>REDACTED\<close> (\<open>calendarUrl_redacted\<close>,
  \<open>stockListUrl_redacted\<close>). But the message also carries, as it came, the text the
  upstream sent: the message of an error envelope, the status text, the text of a
  transport error. When that text repeats the key, the key is in the message that is
  propagated, against the claim and against the comment in \<open>fetchJson\<close>, by which the
  key is redacted from any error message before it propagates. Here the stock list is
  asked for with the key \<open>SECRET\<close>, on a cold cache, and the upstream answers with an
  envelope whose message names the key it refuses.
\<close>

theorem fetchJson_envelope_message_unredacted:
  "fetchJson ns (stockListUrl ''SECRET'')
     ((!) [Http 200 ''OK'' (Some (Obj [(''Error Message'', Str ''Invalid API KEY: SECRET'')]))]) =
   (Inl (Error (''[FMP] API error: Invalid API KEY: SECRET '' @ emDash
                  @ '' https://financialmodelingprep.com/stable/stock-list?apikey=REDACTED'')),
    1) \<and>
   sublist ''SECRET''
     (''[FMP] API error: Invalid API KEY: SECRET '' @ emDash
        @ '' https://financialmodelingprep.com/stable/stock-list?apikey=REDACTED'') \<and>
   result (buildSymbolToExchangeMap ns toUpperCase ''SECRET'' FileAbsent now
     ((!) [Http 200 ''OK'' (Some (Obj [(''Error Message'', Str ''Invalid API KEY: SECRET'')]))])) =
   Inl (Error (''[FMP] API error: Invalid API KEY: SECRET '' @ emDash
                 @ '' https://financialmodelingprep.com/stable/stock-list?apikey=REDACTED''))"
  by code_simp

text \<open>
  An envelope whose message is an object with a \<open>toString\<close> property of its own makes
  the interpolation throw: the error that is propagated is a \<open>TypeError\<close>, and its
  message does not hold the URL.
\<close>

lemma fetchJson_envelope_message_object:
  "fetchJson ns (stockListUrl ''SECRET'')
     ((!) [Http 200 ''OK''
              (Some (Obj [(''Error Message'', Obj [(''toString'', Num (Fin 1))])]))]) =
   (Inl TypeError, 1)"
  by code_simp

subsection \<open>The records of the stock list\<close>





text \<open>
  So a record without a symbol is skipped, the empty text having no letter to uppercase.
\<close>

lemma stockListLoop_no_symbol:
  assumes "toUpperCase [] = []" and "\<not> throwsOnRead item"
      and "getProp item ''symbol'' \<in> {Undefined, Null, Str ''''}"
      and "jsString ns
             (nullish (getProp item ''exchangeShortName'')
                (nullish (getProp item ''exchange_short_name'')
                   (nullish (getProp item ''exchange'') (Str '''')))) = Inr exchangeText"
  shows "stockListLoop ns toUpperCase (item # rest) m = stockListLoop ns toUpperCase rest m"
proof -
  from assms(3) have "jsString ns (nullish (getProp item ''symbol'') (Str '''')) = Inr []"
    by (auto simp: nullish_def)
  with assms(1,2,4) show ?thesis
    by (simp add: Let_def trim_empty)
qed

text \<open>
  What the amended statement leaves open, as the code has it: a record that is \<open>null\<close>,
  and a field holding an object with a \<open>toString\<close> property of its own, make the loop
  throw a \<open>TypeError\<close>.
\<close>

lemma stockListLoop_null_record:
  "stockListLoop ns toUpperCase (Null # rest) m = Inl TypeError"
  by (simp add: throwsOnRead_def)

lemma stockListLoop_unconvertible_symbol:
  "stockListLoop ns toUpperCase
     (Obj [(''symbol'', Obj [(''toString'', Num (Fin 1))]), (''exchange'', Str ''nyse'')] # rest) m =
   Inl TypeError"
  by (simp add: throwsOnRead_def nullish_def)

subsection \<open>The reference cache\<close>

lemma tryLoadCache_miss_iff:
  "tryLoadCache file now = Inr None \<longleftrightarrow>
     file = FileAbsent \<or> file = FileUnreadable \<or> file = FileNotJson \<or>
     (\<exists>payload. file = FileJson payload \<and> \<not> throwsOnRead payload \<and>
        ((\<forall>b. getProp payload ''builtAt'' \<noteq> Num b) \<or>
         \<not> isArray (getProp payload ''entries'') \<or>
         (\<exists>b. getProp payload ''builtAt'' = Num b \<and> isStale now b)))"
  by (cases "file")
     (auto simp: tryLoadCache_def split: jsval.splits if_splits)

lemma isStale_eight_days: "isStale now (Fin (of_int now - 8 * 24 * 60 * 60 * 1000))"
  by (simp add: CACHE_TTL_MS_def)

lemma isStale_one_hour: "\<not> isStale now (Fin (of_int now - 60 * 60 * 1000))"
  by (simp add: CACHE_TTL_MS_def)

lemma buildSymbolToExchangeMap_hit:
  assumes "assertApiKey apiKey ''buildSymbolToExchangeMap'' = None"
      and "tryLoadCache file now = Inr (Some (m, builtAt))"
  shows "buildSymbolToExchangeMap ns toUpperCase apiKey file now rs =
           \<lparr>result = Inr m, networkCalls = 0, cacheWrite = None\<rparr>"
  using assms by (simp add: buildSymbolToExchangeMap_def)

lemma buildSymbolToExchangeMap_miss:
  assumes "assertApiKey apiKey ''buildSymbolToExchangeMap'' = None"
      and "tryLoadCache file now = Inr None"
  shows "networkCalls (buildSymbolToExchangeMap ns toUpperCase apiKey file now rs) =
           snd (fetchJson ns (stockListUrl apiKey) rs)"
  using assms
  by (simp add: buildSymbolToExchangeMap_def split: prod.splits sum.splits jsval.splits)

lemma tryLoadCache_valid:
  assumes "getProp payload ''builtAt'' = Num builtAt"
      and "getProp payload ''entries'' = Arr entries"
      and "\<not> isStale now builtAt"
      and "\<forall>entry \<in> set entries. \<not> throwsOnRead entry"
  shows "tryLoadCache (FileJson payload) now =
           Inr (Some (newMap (map (\<lambda>entry. (getProp entry ''symbol'', getProp entry ''exchange''))
                                entries), builtAt))"
proof -
  have "\<not> throwsOnRead payload"
    using assms(1) by (auto simp: throwsOnRead_def)
  moreover have "\<not> list_ex throwsOnRead entries"
    using assms(4) by (simp add: list_ex_iff)
  ultimately show ?thesis
    using assms(1-3) by (simp add: tryLoadCache_def)
qed

lemma fetchJson_calls_positive: "0 < snd (fetchJson ns url rs)"
proof -
  have "fetchAttempts ns (redactApiKey url) rs 1 0 =
          (fst (fetchJson ns url rs), snd (fetchJson ns url rs))"
    by (simp add: fetchJson_def)
  from fetchAttempts_inv [OF this] show ?thesis
    by (simp add: MAX_ATTEMPTS_def)
qed

lemma buildSymbolToExchangeMap_stale:
  assumes "assertApiKey apiKey ''buildSymbolToExchangeMap'' = None"
      and "getProp payload ''builtAt'' = Num (Fin (of_int now - 8 * 24 * 60 * 60 * 1000))"
      and "getProp payload ''entries'' = Arr entries"
  shows "0 < networkCalls (buildSymbolToExchangeMap ns toUpperCase apiKey (FileJson payload) now rs)"
proof -
  have "\<not> throwsOnRead payload"
    using assms(2) by (auto simp: throwsOnRead_def)
  then have "tryLoadCache (FileJson payload) now = Inr None"
    using assms(2,3) isStale_eight_days [of now] by (simp add: tryLoadCache_def)
  from buildSymbolToExchangeMap_miss [OF assms(1) this] fetchJson_calls_positive
  show ?thesis
    by simp
qed

lemma buildSymbolToExchangeMap_fresh:
  assumes "assertApiKey apiKey ''buildSymbolToExchangeMap'' = None"
      and "getProp payload ''builtAt'' = Num (Fin (of_int now - 60 * 60 * 1000))"
      and "getProp payload ''entries'' = Arr entries"
      and "\<forall>entry \<in> set entries. \<not> throwsOnRead entry"
  shows "buildSymbolToExchangeMap ns toUpperCase apiKey (FileJson payload) now rs =
           \<lparr>result = Inr (newMap (map (\<lambda>entry. (getProp entry ''symbol'', getProp entry ''exchange''))
                                    entries)),
            networkCalls = 0, cacheWrite = None\<rparr>"
  using buildSymbolToExchangeMap_hit [OF assms(1)
      tryLoadCache_valid [OF assms(2,3) isStale_one_hour assms(4)]] .

lemma assertApiKey_given: "assertApiKey ''K'' context = None"
proof -
  have "trim ''K'' \<noteq> []"
    by code_simp
  then show ?thesis
    by (simp add: assertApiKey_def)
qed

text \<open>
  C6. The load is a miss when the file is absent, unreadable or not JSON, when
  \<open>builtAt\<close> is not a number or \<open>entries\<close> not an array, and when \<open>builtAt\<close> is more
  than seven days old (\<open>tryLoadCache_miss_iff\<close>), and the builder then fetches
  (\<open>buildSymbolToExchangeMap_stale\<close>); a valid, fresh file is a hit, and the builder
  then calls nothing (\<open>buildSymbolToExchangeMap_fresh\<close>).
  But a file that holds the JSON value \<open>null\<close> is neither: reading \<open>payload.builtAt\<close>
  throws a \<open>TypeError\<close> that nothing catches, so the load does not return a miss and the
  builder fails instead of rebuilding. The same happens on a fresh file one of whose
  entries is \<open>null\<close>.
\<close>

theorem tryLoadCache_null_payload:
  "tryLoadCache (FileJson Null) now = Inl TypeError \<and>
   buildSymbolToExchangeMap ns toUpperCase ''K'' (FileJson Null) now rs =
     \<lparr>result = Inl TypeError, networkCalls = 0, cacheWrite = None\<rparr> \<and>
   tryLoadCache
     (FileJson (Obj [(''builtAt'', Num (Fin (of_int now - 60 * 60 * 1000))),
                     (''entries'', Arr [Null])])) now = Inl TypeError"
  by (simp add: tryLoadCache_def throwsOnRead_def buildSymbolToExchangeMap_def assertApiKey_given
      CACHE_TTL_MS_def)

subsection \<open>The transcript providers\<close>













text \<open>
  What the amended statement leaves open, as the code has it: on the API Ninjas path
  with no text, the second field of the error is the fiscal period, not the call date;
  a speaker turn that is \<open>null\<close> makes the fetch throw a \<open>TypeError\<close>, even when the
  record has a \<open>transcript\<close>; and so does a field holding an object with a \<open>toString\<close>
  property of its own.
\<close>

lemma ninjasFetchTranscript_no_text:
  "ninjasFetchTranscript ns toUpperCase ''NVDA'' ''2026-02-25'' (Http 200 ''OK'' (Some (Obj []))) =
     Inl (TranscriptNotFoundError ''NVDA'' ''2025Q4'' ''API Ninjas'')"
  by code_simp

lemma ninjasFetchTranscript_null_turn:
  "ninjasFetchTranscript ns toUpperCase ''NVDA'' ''2026-02-25''
     (Http 200 ''OK'' (Some (Obj [(''transcript_split'', Arr [Null]),
                                  (''transcript'', Str ''Good morning.'')]))) = Inl TypeError"
  by code_simp

lemma fmpFetchTranscript_unconvertible_content:
  "fmpFetchTranscript ns toUpperCase ''NVDA'' ''2026-02-25''
     (Http 200 ''OK'' (Some (Arr [Obj [(''content'', Obj [(''toString'', Num (Fin 1))])]]))) =
   Inl TypeError"
  by code_simp

end
